theory Spec2Isabelle
  imports Complex_Main
begin

section \<open>The Pokemon ring of \<^verbatim>\<open>src/main.js\<close>\<close>

text \<open>
  The program is one JavaScript module: a ring of \<open>NUM_CUBES\<close> cubes, each textured
  with the sprite of a randomly chosen Pokemon fetched from the PokeAPI, and a click
  handler that shows the data of the cube under the pointer. The module's state is a
  handful of global variables; it is modelled by the record \<open>app_state\<close>, and every
  function of the module takes the state and returns the new one.

  What lies outside the module is an input of the model:
  \<^item> the value \<open>Math.random()\<close> returns and the way the network answers a request
    (\<open>fetch_env\<close>, one per call of \<open>fetchRandomPokemon\<close>);
  \<^item> the objects met by the pointer ray of a click, nearest first;
  \<^item> the moment a texture finishes loading (the event \<open>TextureLoaded\<close>).
  JavaScript numbers are modelled by \<open>int\<close> where the API delivers integers. The
  value of \<open>Math.random()\<close> is a \<open>real\<close> that is a double (\<open>is_double\<close>), and the
  product \<open>Math.random() * 1010\<close> is rounded to the nearest double, as the code's
  multiplication is.
\<close>

subsection \<open>Strings\<close>

text \<open>
  A string is the list of its code units. Only the code units below 256 are
  represented, which covers every literal of the module and every name the PokeAPI
  delivers (lower-case ASCII words joined by hyphens).
\<close>

type_synonym js_string = string

text \<open>
  \<open>String.prototype.toUpperCase\<close> on the letters \<open>a\<close> to \<open>z\<close>; every other
  represented code unit is left as it is.
\<close>

definition toUpperCase_unit :: "char \<Rightarrow> char" where
  "toUpperCase_unit c =
     (case map_of (zip ''abcdefghijklmnopqrstuvwxyz'' ''ABCDEFGHIJKLMNOPQRSTUVWXYZ'') c of
        Some u \<Rightarrow> u
      | None \<Rightarrow> c)"

definition toUpperCase :: "js_string \<Rightarrow> js_string" where
  "toUpperCase s = map toUpperCase_unit s"

text \<open>\<open>str.charAt(i)\<close> is the empty string when \<open>i\<close> is out of range.\<close>

definition charAt :: "js_string \<Rightarrow> nat \<Rightarrow> js_string" where
  "charAt s i = (if i < length s then [s ! i] else [])"

text \<open>\<open>str.slice(b)\<close> for a non-negative \<open>b\<close>: the empty string when \<open>b\<close> is past the end.\<close>

definition slice :: "js_string \<Rightarrow> nat \<Rightarrow> js_string" where
  "slice s b = drop b s"

text \<open>\<open>capitalize(str)\<close>: \<open>str.charAt(0).toUpperCase() + str.slice(1)\<close>.\<close>

definition capitalize :: "js_string \<Rightarrow> js_string" where
  "capitalize str = toUpperCase (charAt str 0) @ slice str 1"

text \<open>\<open>Array.prototype.join(sep)\<close> on an array of strings.\<close>

fun join :: "js_string list \<Rightarrow> js_string \<Rightarrow> js_string" where
  "join [] sep = []"
| "join [x] sep = x"
| "join (x # y # ys) sep = x @ sep @ join (y # ys) sep"

text \<open>
  The decimal text a template literal gives an integer (of absolute value below
  \<open>10\<^sup>2\<^sup>1\<close>, beyond which JavaScript switches to the exponent form).
\<close>

fun digits :: "nat \<Rightarrow> js_string" where
  "digits n =
     (if n < 10 then [''0123456789'' ! n]
      else digits (n div 10) @ [''0123456789'' ! (n mod 10)])"

declare digits.simps [simp del]

definition number_toString :: "int \<Rightarrow> js_string" where
  "number_toString n = (if n < 0 then CHR ''-'' # digits (nat (- n)) else digits (nat n))"

subsection \<open>Doubles\<close>

text \<open>
  A JavaScript number is a binary64 double: 53 significant bits, the exponent of a
  normal number between \<open>-1022\<close> and \<open>1023\<close>. The result of an arithmetic operation is
  the exact result rounded to the nearest double, a tie going to the even
  significand. \<open>round_ties_even\<close> rounds a real to the nearest integer in this way.
\<close>

definition round_ties_even :: "real \<Rightarrow> int" where
  "round_ties_even y =
     (let f = \<lfloor>y\<rfloor>; d = y - of_int f
      in if d < 1 / 2 then f else if 1 / 2 < d then f + 1 else if even f then f else f + 1)"

text \<open>
  The binary exponent of a non-negative real: the number of halvings that bring it
  below 2, or minus the number of doublings that bring it up to 1. The search stops
  at the largest and at the smallest exponent of a normal double; below the smallest
  the doubles are evenly spaced (subnormal).
\<close>

fun halvings :: "nat \<Rightarrow> real \<Rightarrow> nat" where
  "halvings n x = (if n = 0 \<or> x < 2 then 0 else 1 + halvings (n - 1) (x / 2))"

fun doublings :: "nat \<Rightarrow> real \<Rightarrow> nat" where
  "doublings n x = (if n = 0 \<or> 1 \<le> x then 0 else 1 + doublings (n - 1) (2 * x))"

declare halvings.simps [simp del] doublings.simps [simp del]

definition exponent :: "real \<Rightarrow> int" where
  "exponent x = (if 1 \<le> x then int (halvings 1023 x) else - int (doublings 1022 x))"

text \<open>The distance between neighbouring doubles at a non-negative real.\<close>

definition ulp :: "real \<Rightarrow> real" where
  "ulp x = (let e = exponent x in if 52 \<le> e then 2 ^ nat (e - 52) else 1 / 2 ^ nat (52 - e))"

text \<open>
  The double nearest to a real. Reals of magnitude \<open>2\<^sup>1\<^sup>0\<^sup>2\<^sup>4\<close> and more, which
  JavaScript rounds to \<open>Infinity\<close>, are not represented; the program computes none.
\<close>

definition round_double :: "real \<Rightarrow> real" where
  "round_double x = of_int (round_ties_even (x / ulp \<bar>x\<bar>)) * ulp \<bar>x\<bar>"

text \<open>A real is a double when rounding leaves it as it is.\<close>

definition is_double :: "real \<Rightarrow> bool" where
  "is_double x \<longleftrightarrow> round_double x = x"

subsection \<open>Data\<close>

text \<open>
  The part of the PokeAPI's JSON answer the module reads: \<open>data.name\<close>, \<open>data.id\<close>,
  \<open>data.sprites.front_default\<close> (\<open>null\<close> when there is no sprite), \<open>t.type.name\<close> for
  each entry \<open>t\<close> of \<open>data.types\<close>, and \<open>base_stat\<close> and \<open>stat.name\<close> for each entry of
  \<open>data.stats\<close>. An answer without a \<open>sprites\<close> object has \<open>sprites = None\<close>.
\<close>

record stat_entry =
  base_stat :: int
  stat_name :: js_string

record sprites_obj =
  front_default :: "js_string option"

record pokemon_data =
  name :: js_string
  id_num :: int
  sprites :: "sprites_obj option"
  types :: "js_string list"
  stats :: "stat_entry list"

text \<open>
  The exceptions of the module: a rejected \<open>fetch\<close>, the module's own
  \<open>Error('Failed to fetch ...')\<close>, a rejected \<open>resp.json()\<close>, and the \<open>TypeError\<close> of
  reading a property of \<open>undefined\<close>.
\<close>

datatype js_error = TransportError | FetchFailed | SyntaxError | TypeError

datatype json_body = Malformed | Body pokemon_data

record response =
  ok :: bool
  json :: json_body

datatype fetch_result = Rejected | Resolved response

text \<open>
  A mesh is a JavaScript object; \<open>mesh_ref\<close> is its identity. The record \<open>mesh_obj\<close>
  holds what the module writes into it: the place on the ring (the angle
  \<open>2 \<pi> i / NUM_CUBES\<close>, kept as \<open>i\<close>), \<open>material.map\<close> (a texture is named by its URL)
  and \<open>material.needsUpdate\<close>.
\<close>

type_synonym mesh_ref = nat

record mesh_obj =
  position_index :: "nat option"
  material_map :: "js_string option"
  needsUpdate :: bool

record cube =
  mesh :: mesh_ref
  pokemonData :: "pokemon_data option"

datatype log_entry = ErrorFetching js_error | PokemonIDs "int option list"

text \<open>
  The globals \<open>cubes\<close>, \<open>ringGroup\<close> (its \<open>children\<close>), \<open>pokemonInfoDiv\<close> (the string
  last assigned to its \<open>innerHTML\<close>) and \<open>window.lastPokemonIDs\<close> (\<open>None\<close> while
  undefined); the store of mesh objects with its allocation counter; the calls of
  the texture loader made so far (mesh and URL, oldest first) and, of these, the
  loads whose callback has not run yet; the URLs passed to \<open>fetch\<close>; the console.
\<close>

record app_state =
  cubes :: "cube list"
  ringGroup :: "mesh_ref list"
  pokemonInfoDiv :: js_string
  lastPokemonIDs :: "int option list option"
  heap :: "mesh_ref \<Rightarrow> mesh_obj"
  next_mesh :: nat
  texture_requests :: "(mesh_ref \<times> js_string) list"
  texture_loads :: "(mesh_ref \<times> js_string) list"
  requests :: "js_string list"
  console :: "log_entry list"

text \<open>
  What happens while a call of \<open>createPokemonRing\<close> is suspended at an \<open>await\<close>: a
  click (with the objects on the pointer ray, nearest first) or the completion of the
  \<open>k\<close>-th pending texture load.
\<close>

datatype event = Click "mesh_ref list" | TextureLoaded nat

text \<open>
  The environment of one call of \<open>fetchRandomPokemon\<close>: the value of
  \<open>Math.random()\<close>, the answer of the network to the requested URL, and the events
  handled while the call is suspended.
\<close>

record fetch_env =
  math_random :: real
  fetch_reply :: "js_string \<Rightarrow> fetch_result"
  meanwhile :: "event list"

definition POKE_API_BASE :: js_string where
  "POKE_API_BASE = ''https://pokeapi.co/api/v2/pokemon/''"

definition NUM_CUBES :: nat where
  "NUM_CUBES = 10"

subsection \<open>Info display\<close>

text \<open>
  \<open>showPokemonInfo(data)\<close>. Reading \<open>data.stats[k].base_stat\<close> throws a \<open>TypeError\<close>
  when \<open>data.stats\<close> has no entry \<open>k\<close>; nothing has been written by then.
\<close>

definition showPokemonInfo :: "pokemon_data \<Rightarrow> app_state \<Rightarrow> js_error + app_state" where
  "showPokemonInfo data st =
     (let name' = capitalize (name data);
          pokeId = id_num data;
          types' = join (map capitalize (types data)) '', ''
      in if length (stats data) < 3 then Inl TypeError
         else
           (let hp = base_stat (stats data ! 0);
                attack = base_stat (stats data ! 1);
                defense = base_stat (stats data ! 2)
            in Inr (st\<lparr>pokemonInfoDiv :=
                 ''\<newline>    <div class=\"highlight\">\<newline>      <strong>#''
                 @ number_toString pokeId @ '' '' @ name' @ ''</strong><br />\<newline>      <em>Types:</em> ''
                 @ types' @ ''<br />\<newline>      <em>HP:</em> ''
                 @ number_toString hp @ '' | <em>Attack:</em> ''
                 @ number_toString attack @ '' | <em>Defense:</em> ''
                 @ number_toString defense @ ''\<newline>    </div>\<newline>  ''\<rparr>)))"

subsection \<open>Click picking\<close>

text \<open>
  \<open>raycaster.intersectObjects(objects)\<close>: of the objects on the ray, those that are
  among \<open>objects\<close>, nearest first.
\<close>

definition intersectObjects :: "mesh_ref list \<Rightarrow> mesh_ref list \<Rightarrow> mesh_ref list" where
  "intersectObjects objects ray = filter (\<lambda>m. m \<in> set objects) ray"

text \<open>
  The listener \<open>initClickPicking\<close> registers for \<open>click\<close>. Its \<open>pointer\<close> and
  \<open>raycaster\<close> are scratch objects of the hit test: they are overwritten at the start
  of every click and read nowhere else, so they are not part of the state, and the
  outcome of the hit test is given by \<open>ray\<close>.
\<close>

definition onClick :: "mesh_ref list \<Rightarrow> app_state \<Rightarrow> js_error + app_state" where
  "onClick ray st =
     (let intersects = intersectObjects (ringGroup st) ray
      in if length intersects > 0 then
           (let clickedMesh = hd intersects;
                found = find (\<lambda>c. mesh c = clickedMesh) (cubes st)
            in case found of
                 Some c \<Rightarrow>
                   (case pokemonData c of
                      Some data \<Rightarrow> showPokemonInfo data st
                    | None \<Rightarrow> Inr (st\<lparr>pokemonInfoDiv := ''<div>No data available.</div>''\<rparr>))
               | None \<Rightarrow> Inr (st\<lparr>pokemonInfoDiv := ''<div>No data available.</div>''\<rparr>))
         else Inr st)"

subsection \<open>Cubes and textures\<close>

text \<open>\<open>createCube()\<close>: a new mesh object with a new material.\<close>

definition createCube :: "app_state \<Rightarrow> mesh_ref \<times> app_state" where
  "createCube st =
     (next_mesh st,
      st\<lparr>heap := (heap st)(next_mesh st :=
            \<lparr>position_index = None, material_map = None, needsUpdate = False\<rparr>),
         next_mesh := Suc (next_mesh st)\<rparr>)"

text \<open>
  \<open>setCubeTexture(mesh, spriteURL)\<close> starts the load and returns; \<open>texture_onLoad\<close> is
  the callback it passes to the loader.
\<close>

definition texture_onLoad :: "mesh_ref \<Rightarrow> js_string \<Rightarrow> app_state \<Rightarrow> app_state" where
  "texture_onLoad mesh' texture st =
     st\<lparr>heap := (heap st)(mesh' := (heap st mesh')\<lparr>material_map := Some texture, needsUpdate := True\<rparr>)\<rparr>"

definition setCubeTexture :: "mesh_ref \<Rightarrow> js_string \<Rightarrow> app_state \<Rightarrow> app_state" where
  "setCubeTexture mesh' spriteURL st =
     st\<lparr>texture_requests := texture_requests st @ [(mesh', spriteURL)],
        texture_loads := texture_loads st @ [(mesh', spriteURL)]\<rparr>"

text \<open>The \<open>k\<close>-th pending load completes: the loader runs its callback once.\<close>

definition textureLoaded :: "nat \<Rightarrow> app_state \<Rightarrow> app_state" where
  "textureLoaded k st =
     (if k < length (texture_loads st) then
        texture_onLoad (fst (texture_loads st ! k)) (snd (texture_loads st ! k))
          (st\<lparr>texture_loads := take k (texture_loads st) @ drop (Suc k) (texture_loads st)\<rparr>)
      else st)"

text \<open>
  One event of the browser's loop. An exception thrown by the click listener is
  reported by the browser and changes nothing.
\<close>

fun handle_event :: "event \<Rightarrow> app_state \<Rightarrow> app_state" where
  "handle_event (Click ray) st = (case onClick ray st of Inl err \<Rightarrow> st | Inr st' \<Rightarrow> st')"
| "handle_event (TextureLoaded k) st = textureLoaded k st"

definition run_events :: "event list \<Rightarrow> app_state \<Rightarrow> app_state" where
  "run_events evs st = fold handle_event evs st"

subsection \<open>Fetching\<close>

text \<open>
  \<open>fetchRandomPokemon()\<close>. \<open>Math.random() * 1010\<close> is a product of doubles and is
  rounded; \<open>Math.floor\<close> and the addition of 1 are exact on its result. The request is
  issued, the call is suspended (the events of \<open>meanwhile\<close> are handled), and the
  answer decides the result.
\<close>

definition fetchRandomPokemon :: "fetch_env \<Rightarrow> app_state \<Rightarrow> (js_error + pokemon_data) \<times> app_state" where
  "fetchRandomPokemon e st =
     (let randomId = \<lfloor>round_double (math_random e * 1010)\<rfloor> + 1;
          url = POKE_API_BASE @ number_toString randomId;
          st1 = run_events (meanwhile e) (st\<lparr>requests := requests st @ [url]\<rparr>)
      in case fetch_reply e url of
           Rejected \<Rightarrow> (Inl TransportError, st1)
         | Resolved resp \<Rightarrow>
             if \<not> ok resp then (Inl FetchFailed, st1)
             else (case json resp of
                     Malformed \<Rightarrow> (Inl SyntaxError, st1)
                   | Body data \<Rightarrow> (Inr data, st1)))"

subsection \<open>The ring\<close>

text \<open>\<open>cubes.forEach(({ mesh }) => ringGroup.remove(mesh)); cubes = []\<close>.\<close>

definition removeExisting :: "app_state \<Rightarrow> app_state" where
  "removeExisting st =
     st\<lparr>ringGroup := foldl (\<lambda>children c. remove1 (mesh c) children) (ringGroup st) (cubes st),
        cubes := []\<rparr>"

text \<open>
  The head of the loop body for index \<open>i\<close>: create the mesh, place it, add it to the
  group. The mesh is new and has no parent, so \<open>ringGroup.add\<close> only appends it.
\<close>

definition placeCube :: "nat \<Rightarrow> app_state \<Rightarrow> mesh_ref \<times> app_state" where
  "placeCube i st =
     (let (mesh', st1) = createCube st;
          st2 = st1\<lparr>heap := (heap st1)(mesh' := (heap st1 mesh')\<lparr>position_index := Some i\<rparr>)\<rparr>
      in (mesh', st2\<lparr>ringGroup := ringGroup st2 @ [mesh']\<rparr>))"

text \<open>
  The \<open>try\<close> block: \<open>Inl\<close> carries the exception and the state at the throw.
  A sprite is falsy when it is \<open>null\<close> or the empty string.
\<close>

definition try_block :: "mesh_ref \<Rightarrow> fetch_env \<Rightarrow> app_state \<Rightarrow> (js_error \<times> app_state) + app_state" where
  "try_block mesh' e st =
     (case fetchRandomPokemon e st of
        (Inl err, st1) \<Rightarrow> Inl (err, st1)
      | (Inr data, st1) \<Rightarrow>
          (case sprites data of
             None \<Rightarrow> Inl (TypeError, st1)
           | Some s \<Rightarrow>
               (case front_default s of
                  Some sprite \<Rightarrow>
                    if sprite \<noteq> [] then
                      (let st2 = setCubeTexture mesh' sprite st1
                       in Inr (st2\<lparr>cubes := cubes st2 @ [\<lparr>mesh = mesh', pokemonData = Some data\<rparr>]\<rparr>))
                    else Inr (st1\<lparr>cubes := cubes st1 @ [\<lparr>mesh = mesh', pokemonData = None\<rparr>]\<rparr>)
                | None \<Rightarrow> Inr (st1\<lparr>cubes := cubes st1 @ [\<lparr>mesh = mesh', pokemonData = None\<rparr>]\<rparr>))))"

text \<open>The \<open>try\<close> statement with its \<open>catch\<close> clause.\<close>

definition fetchAndBind :: "mesh_ref \<Rightarrow> fetch_env \<Rightarrow> app_state \<Rightarrow> app_state" where
  "fetchAndBind mesh' e st =
     (case try_block mesh' e st of
        Inl (err, st1) \<Rightarrow>
          st1\<lparr>console := console st1 @ [ErrorFetching err],
              cubes := cubes st1 @ [\<lparr>mesh = mesh', pokemonData = None\<rparr>]\<rparr>
      | Inr st1 \<Rightarrow> st1)"

text \<open>
  The \<open>for\<close> loop from index \<open>i\<close> on. Each iteration awaits one fetch and takes its
  environment from the list; when the list is used up the awaited fetch never
  settles and the call never completes (\<open>None\<close>).
\<close>

function createPokemonRing_loop :: "nat \<Rightarrow> fetch_env list \<Rightarrow> app_state \<Rightarrow> app_state option" where
  "createPokemonRing_loop i env st =
     (if i < NUM_CUBES then
        (case env of
           [] \<Rightarrow> None
         | e # env' \<Rightarrow>
             createPokemonRing_loop (i + 1) env'
               (fetchAndBind (fst (placeCube i st)) e (snd (placeCube i st))))
      else Some st)"
  by pat_completeness auto
termination
  by (relation "measure (\<lambda>(i, env, st). NUM_CUBES - i)") auto

declare createPokemonRing_loop.simps [simp del]

text \<open>\<open>cubes.map(c => c.pokemonData ? c.pokemonData.id : null)\<close>.\<close>

definition pokemonIDs :: "cube list \<Rightarrow> int option list" where
  "pokemonIDs cs = map (\<lambda>c. case pokemonData c of Some d \<Rightarrow> Some (id_num d) | None \<Rightarrow> None) cs"

text \<open>
  \<open>createPokemonRing()\<close>, one call run to its end. No second call of
  \<open>createPokemonRing\<close> starts while this one is suspended; clicks and texture loads
  may happen then (\<open>meanwhile\<close>).
\<close>

definition createPokemonRing :: "fetch_env list \<Rightarrow> app_state \<Rightarrow> app_state option" where
  "createPokemonRing env st =
     (case createPokemonRing_loop 0 env (removeExisting st) of
        None \<Rightarrow> None
      | Some st1 \<Rightarrow>
          Some (st1\<lparr>lastPokemonIDs := Some (pokemonIDs (cubes st1)),
                    console := console st1 @ [PokemonIDs (pokemonIDs (cubes st1))]\<rparr>))"

text \<open>
  The state when \<open>main\<close> calls \<open>createPokemonRing\<close> for the first time: no cubes, an
  empty group. The page's markup is not part of the module, so the initial content
  of the info element is a parameter.
\<close>

definition init_state :: "js_string \<Rightarrow> app_state" where
  "init_state html =
     \<lparr>cubes = [], ringGroup = [], pokemonInfoDiv = html, lastPokemonIDs = None,
      heap = (\<lambda>m. \<lparr>position_index = None, material_map = None, needsUpdate = False\<rparr>),
      next_mesh = 0, texture_requests = [], texture_loads = [], requests = [], console = []\<rparr>"

subsection \<open>Derived notions\<close>

text \<open>
  What one call of \<open>fetchRandomPokemon\<close> requests and returns, what the loop body
  stores in \<open>pokemonData\<close> and which texture loads it starts. They are read off the
  functions above at the initial state; the lemmas \<open>fetchRandomPokemon_fst\<close>,
  \<open>requested_url_eq\<close>, \<open>fetchAndBind_cubes\<close> and \<open>fetchAndBind_texture_requests\<close> show
  that the state plays no part in them.
\<close>

definition fetch_outcome :: "fetch_env \<Rightarrow> js_error + pokemon_data" where
  "fetch_outcome e = fst (fetchRandomPokemon e (init_state []))"

definition bound_data :: "fetch_env \<Rightarrow> pokemon_data option" where
  "bound_data e = pokemonData (last (cubes (fetchAndBind 0 e (init_state []))))"

definition started_loads :: "mesh_ref \<Rightarrow> fetch_env \<Rightarrow> (mesh_ref \<times> js_string) list" where
  "started_loads m e = texture_requests (fetchAndBind m e (init_state []))"

definition requested_url :: "fetch_env \<Rightarrow> js_string" where
  "requested_url e = last (requests (snd (fetchRandomPokemon e (init_state []))))"

text \<open>
  The states in which no call of \<open>createPokemonRing\<close> is under way: the group holds
  the meshes of the current cubes, in their order, and every mesh the state refers to
  has been created.
\<close>

definition ring_wf :: "app_state \<Rightarrow> bool" where
  "ring_wf st \<longleftrightarrow>
     ringGroup st = map mesh (cubes st) \<and>
     distinct (ringGroup st) \<and>
     list_all (\<lambda>m. m < next_mesh st) (ringGroup st) \<and>
     list_all (\<lambda>(m, u). m < next_mesh st) (texture_loads st)"

subsection \<open>The display format in the specification's words\<close>

text \<open>
  Section 4.3 of the specification: capitalisation upper-cases the first character
  of the string and leaves the remainder unchanged; the type names are joined by
  commas. These two definitions follow the specification, not the code.
\<close>

definition spec_capitalized :: "js_string \<Rightarrow> js_string" where
  "spec_capitalized s = (case s of [] \<Rightarrow> [] | c # cs \<Rightarrow> toUpperCase_unit c # cs)"

fun spec_comma_joined :: "js_string list \<Rightarrow> js_string" where
  "spec_comma_joined [] = []"
| "spec_comma_joined (x # xs) = x @ concat (map (\<lambda>y. CHR '','' # CHR '' '' # y) xs)"

subsection \<open>Example data\<close>

text \<open>A record whose stats are not in the order HP, Attack, Defense.\<close>

definition charizard :: pokemon_data where
  "charizard = \<lparr>name = ''charizard'', id_num = 6,
     sprites = Some \<lparr>front_default = Some ''https://img/6.png''\<rparr>,
     types = [''fire'', ''flying''],
     stats = [\<lparr>base_stat = 78, stat_name = ''defense''\<rparr>, \<lparr>base_stat = 84, stat_name = ''hp''\<rparr>,
              \<lparr>base_stat = 109, stat_name = ''attack''\<rparr>, \<lparr>base_stat = 100, stat_name = ''speed''\<rparr>]\<rparr>"

text \<open>Two more records; the second has no sprite.\<close>

definition pikachu :: pokemon_data where
  "pikachu = \<lparr>name = ''pikachu'', id_num = 25,
     sprites = Some \<lparr>front_default = Some ''https://img/25.png''\<rparr>,
     types = [''electric''],
     stats = [\<lparr>base_stat = 35, stat_name = ''hp''\<rparr>, \<lparr>base_stat = 55, stat_name = ''attack''\<rparr>,
              \<lparr>base_stat = 40, stat_name = ''defense''\<rparr>]\<rparr>"

definition spriteless :: pokemon_data where
  "spriteless = \<lparr>name = ''squirtle'', id_num = 7,
     sprites = Some \<lparr>front_default = None\<rparr>,
     types = [''water''],
     stats = [\<lparr>base_stat = 44, stat_name = ''hp''\<rparr>, \<lparr>base_stat = 48, stat_name = ''attack''\<rparr>,
              \<lparr>base_stat = 65, stat_name = ''defense''\<rparr>]\<rparr>"

text \<open>Answers of the network: a record with status 200, and a 404 without a body.\<close>

definition answer :: "pokemon_data \<Rightarrow> js_string \<Rightarrow> fetch_result" where
  "answer d url = Resolved \<lparr>ok = True, json = Body d\<rparr>"

definition not_found :: "js_string \<Rightarrow> fetch_result" where
  "not_found url = Resolved \<lparr>ok = False, json = Malformed\<rparr>"

text \<open>
  The environment of one call of \<open>createPokemonRing\<close>: ten fetches, of which three
  deliver a record with a sprite, three a record without a usable sprite, and four
  fail; the random values are doubles. While the first fetch is pending, a click hits the cube that has just been
  placed; while the fourth is pending, the first texture finishes loading.
\<close>

definition example_env :: "fetch_env list" where
  "example_env =
     [\<lparr>math_random = 3 / 512, fetch_reply = answer charizard, meanwhile = [Click [0]]\<rparr>,
      \<lparr>math_random = 0, fetch_reply = not_found, meanwhile = []\<rparr>,
      \<lparr>math_random = 13 / 2048, fetch_reply = answer spriteless, meanwhile = []\<rparr>,
      \<lparr>math_random = 1 / 2, fetch_reply = (\<lambda>url. Rejected), meanwhile = [TextureLoaded 0]\<rparr>,
      \<lparr>math_random = 49 / 2048, fetch_reply = answer pikachu, meanwhile = []\<rparr>,
      \<lparr>math_random = 13 / 2048, fetch_reply = answer (spriteless\<lparr>sprites := Some \<lparr>front_default = Some []\<rparr>\<rparr>), meanwhile = []\<rparr>,
      \<lparr>math_random = 13 / 2048, fetch_reply = answer (spriteless\<lparr>sprites := None\<rparr>), meanwhile = []\<rparr>,
      \<lparr>math_random = 3 / 4, fetch_reply = (\<lambda>url. Resolved \<lparr>ok = True, json = Malformed\<rparr>), meanwhile = []\<rparr>,
      \<lparr>math_random = 3 / 512, fetch_reply = answer charizard, meanwhile = []\<rparr>,
      \<lparr>math_random = 1023 / 1024, fetch_reply = not_found, meanwhile = []\<rparr>]"

text \<open>
  A fetch whose random value is a double just below \<open>9 / 1010\<close>: the exact product
  with 1010 is below 9, the rounded product is 9.
\<close>

definition rounding_env :: fetch_env where
  "rounding_env =
     \<lparr>math_random = 5136778980921595 / 2 ^ 59, fetch_reply = not_found, meanwhile = []\<rparr>"

text \<open>An environment in which every fetch is answered with 404 and nothing else happens.\<close>

definition quiet_env :: "fetch_env list" where
  "quiet_env = replicate 10 \<lparr>math_random = 0, fetch_reply = not_found, meanwhile = []\<rparr>"

text \<open>
  The state after the first call of \<open>createPokemonRing\<close> in \<open>example_env\<close>, the state
  after a second call in \<open>quiet_env\<close>, and the state in which the first call is
  suspended at its first \<open>await\<close>: the first mesh is in the group, the first request
  is under way, and \<open>cubes\<close> is still empty.
\<close>

definition first_refresh :: app_state where
  "first_refresh = the (createPokemonRing example_env (init_state []))"

definition second_refresh :: app_state where
  "second_refresh = the (createPokemonRing quiet_env first_refresh)"

definition first_await :: app_state where
  "first_await =
     (let st = snd (placeCube 0 (removeExisting (init_state [])))
      in st\<lparr>requests := requests st @ [requested_url (example_env ! 0)]\<rparr>)"

section \<open>Display formatting\<close>

lemma capitalize_eq: "capitalize str = spec_capitalized str"
  by (cases str) (simp_all add: capitalize_def spec_capitalized_def toUpperCase_def charAt_def slice_def)

lemma join_Cons: "join (x # xs) sep = x @ concat (map (\<lambda>y. sep @ y) xs)"
  by (induction xs arbitrary: x) simp_all

lemma join_eq: "join xs '', '' = spec_comma_joined xs"
proof (cases xs)
  case Nil
  then show ?thesis by simp
next
  case (Cons x ys)
  have "join (x # ys) '', '' = x @ concat (map (\<lambda>y. '', '' @ y) ys)"
    by (rule join_Cons)
  then show ?thesis using Cons by simp
qed

text \<open>
  C9. \<open>capitalize\<close> returns a string for every string: on the empty string, where
  \<open>charAt(0)\<close> finds no character, it returns the empty string, and on a non-empty
  string it returns the upper-cased first code unit followed by the rest.
\<close>

theorem capitalize_total:
  "capitalize [] = [] \<and> (\<forall>c cs. capitalize (c # cs) = toUpperCase_unit c # cs)"
  by (simp add: capitalize_def toUpperCase_def charAt_def slice_def)

text \<open>
  C6. For a record with at least three stat entries, \<open>showPokemonInfo\<close> throws
  nothing and writes the fixed template: \<open>#<id> <Capitalized name>\<close>, the capitalised
  type names joined by commas in their order, and the \<open>base_stat\<close> of the entries 0, 1
  and 2 of \<open>stats\<close> under the labels HP, Attack and Defense, whatever the names of
  those stats are. Capitalisation is the specification's: first character
  upper-cased, remainder unchanged.
\<close>

theorem showPokemonInfo_template:
  assumes "3 \<le> length (stats data)"
  shows "showPokemonInfo data st =
     Inr (st\<lparr>pokemonInfoDiv :=
       ''\<newline>    <div class=\"highlight\">\<newline>      <strong>''
       @ (''#'' @ number_toString (id_num data) @ '' '' @ spec_capitalized (name data))
       @ ''</strong><br />\<newline>      <em>Types:</em> ''
       @ spec_comma_joined (map spec_capitalized (types data))
       @ ''<br />\<newline>      <em>HP:</em> '' @ number_toString (base_stat (stats data ! 0))
       @ '' | <em>Attack:</em> '' @ number_toString (base_stat (stats data ! 1))
       @ '' | <em>Defense:</em> '' @ number_toString (base_stat (stats data ! 2))
       @ ''\<newline>    </div>\<newline>  ''\<rparr>)"
proof -
  have m: "map capitalize (types data) = map spec_capitalized (types data)"
    by (simp add: capitalize_eq)
  show ?thesis using assms
    by (simp add: showPokemonInfo_def Let_def m join_eq capitalize_eq)
qed

theorem showPokemonInfo_template_witness:
  "3 \<le> length (stats charizard) \<and>
   showPokemonInfo charizard (init_state []) =
     Inr ((init_state [])\<lparr>pokemonInfoDiv :=
       ''\<newline>    <div class=\"highlight\">\<newline>      <strong>#6 Charizard</strong><br />\<newline>      <em>Types:</em> Fire, Flying<br />\<newline>      <em>HP:</em> 78 | <em>Attack:</em> 84 | <em>Defense:</em> 109\<newline>    </div>\<newline>  ''\<rparr>)"
proof -
  have h: "3 \<le> length (stats charizard)" by (simp add: charizard_def)
  show ?thesis using h showPokemonInfo_template [OF h, of "init_state []"]
    by (simp add: charizard_def number_toString_def digits.simps spec_capitalized_def toUpperCase_unit_def)
qed

section \<open>Events leave the ring alone\<close>

lemma textureLoaded_fields [simp]:
  "cubes (textureLoaded k st) = cubes st"
  "ringGroup (textureLoaded k st) = ringGroup st"
  "next_mesh (textureLoaded k st) = next_mesh st"
  "requests (textureLoaded k st) = requests st"
  "lastPokemonIDs (textureLoaded k st) = lastPokemonIDs st"
  "console (textureLoaded k st) = console st"
  "pokemonInfoDiv (textureLoaded k st) = pokemonInfoDiv st"
  "texture_requests (textureLoaded k st) = texture_requests st"
  by (simp_all add: textureLoaded_def texture_onLoad_def)

lemma onClick_fields:
  assumes "onClick ray st = Inr st'"
  shows "cubes st' = cubes st" "ringGroup st' = ringGroup st" "next_mesh st' = next_mesh st"
    "requests st' = requests st" "lastPokemonIDs st' = lastPokemonIDs st" "console st' = console st"
    "texture_loads st' = texture_loads st" "heap st' = heap st"
    "texture_requests st' = texture_requests st"
  using assms
  by (auto simp: onClick_def showPokemonInfo_def Let_def split: if_splits option.splits)

lemma handle_event_fields [simp]:
  "cubes (handle_event ev st) = cubes st"
  "ringGroup (handle_event ev st) = ringGroup st"
  "next_mesh (handle_event ev st) = next_mesh st"
  "requests (handle_event ev st) = requests st"
  "lastPokemonIDs (handle_event ev st) = lastPokemonIDs st"
  "console (handle_event ev st) = console st"
  "texture_requests (handle_event ev st) = texture_requests st"
  by (cases ev; simp split: sum.splits add: onClick_fields)+

lemma run_events_fields [simp]:
  "cubes (run_events evs st) = cubes st"
  "ringGroup (run_events evs st) = ringGroup st"
  "next_mesh (run_events evs st) = next_mesh st"
  "requests (run_events evs st) = requests st"
  "lastPokemonIDs (run_events evs st) = lastPokemonIDs st"
  "console (run_events evs st) = console st"
  "texture_requests (run_events evs st) = texture_requests st"
  unfolding run_events_def
  by (induction evs arbitrary: st; simp)+

section \<open>One fetch\<close>

lemma fetchRandomPokemon_fst: "fst (fetchRandomPokemon e st) = fetch_outcome e"
  by (simp add: fetch_outcome_def fetchRandomPokemon_def Let_def split: fetch_result.splits json_body.splits)

lemma fetchRandomPokemon_snd:
  "snd (fetchRandomPokemon e st) =
     run_events (meanwhile e)
       (st\<lparr>requests := requests st @ [POKE_API_BASE @ number_toString (\<lfloor>round_double (math_random e * 1010)\<rfloor> + 1)]\<rparr>)"
  by (simp add: fetchRandomPokemon_def Let_def split: fetch_result.splits json_body.splits)

lemma fetchRandomPokemon_fields [simp]:
  "cubes (snd (fetchRandomPokemon e st)) = cubes st"
  "ringGroup (snd (fetchRandomPokemon e st)) = ringGroup st"
  "next_mesh (snd (fetchRandomPokemon e st)) = next_mesh st"
  "lastPokemonIDs (snd (fetchRandomPokemon e st)) = lastPokemonIDs st"
  "console (snd (fetchRandomPokemon e st)) = console st"
  "texture_requests (snd (fetchRandomPokemon e st)) = texture_requests st"
  by (simp_all add: fetchRandomPokemon_snd)

lemma fetch_outcome_cases:
  "fetch_outcome e =
     (case fetch_reply e (POKE_API_BASE @ number_toString (\<lfloor>round_double (math_random e * 1010)\<rfloor> + 1)) of
        Rejected \<Rightarrow> Inl TransportError
      | Resolved resp \<Rightarrow>
          if \<not> ok resp then Inl FetchFailed
          else (case json resp of Malformed \<Rightarrow> Inl SyntaxError | Body data \<Rightarrow> Inr data))"
  by (simp add: fetch_outcome_def fetchRandomPokemon_def Let_def
      split: fetch_result.splits json_body.splits)

lemma requested_url_eq:
  "requested_url e = POKE_API_BASE @ number_toString (\<lfloor>round_double (math_random e * 1010)\<rfloor> + 1)"
  by (simp add: requested_url_def fetchRandomPokemon_snd)

subsection \<open>Rounding\<close>

lemma round_ties_even_upper: "of_int (round_ties_even y) \<le> y + 1 / 2"
  unfolding round_ties_even_def Let_def by (auto simp: not_less) linarith+

lemma round_ties_even_lower: "y - 1 / 2 \<le> of_int (round_ties_even y)"
  unfolding round_ties_even_def Let_def by (auto simp: not_less) linarith+

lemma round_ties_even_nonneg: "0 \<le> y \<Longrightarrow> 0 \<le> round_ties_even y"
  unfolding round_ties_even_def Let_def by auto

lemma halvings_le: "x < 2 ^ Suc k \<Longrightarrow> halvings n x \<le> k"
proof (induction k arbitrary: n x)
  case 0
  then show ?case by (simp add: halvings.simps)
next
  case (Suc k)
  show ?case
  proof (cases "n = 0 \<or> x < 2")
    case True
    then show ?thesis by (simp add: halvings.simps)
  next
    case False
    have "x / 2 < 2 ^ Suc k" using Suc.prems by simp
    from Suc.IH [OF this, of "n - 1"] show ?thesis
      using False by (subst halvings.simps) simp
  qed
qed

lemma exponent_le: "x < 1024 \<Longrightarrow> exponent x \<le> 9"
  using halvings_le [of x 9 1023] by (simp add: exponent_def)

lemma ulp_pos: "0 < ulp x"
  by (simp add: ulp_def Let_def)

lemma ulp_le: assumes "x < 1024" shows "ulp x \<le> 1 / 2 ^ 43"
proof -
  have e: "exponent x \<le> 9" by (rule exponent_le [OF assms])
  then have "43 \<le> nat (52 - exponent x)" by simp
  then have "(2::real) ^ 43 \<le> 2 ^ nat (52 - exponent x)"
    by (intro power_increasing) simp_all
  then have "1 / 2 ^ nat (52 - exponent x) \<le> 1 / (2::real) ^ 43"
    by (intro divide_left_mono) simp_all
  then show ?thesis using e by (simp add: ulp_def Let_def)
qed

lemma round_double_error:
  "round_double x \<le> x + ulp \<bar>x\<bar> / 2" "x - ulp \<bar>x\<bar> / 2 \<le> round_double x"
proof -
  let ?u = "ulp \<bar>x\<bar>"
  have u: "0 < ?u" by (rule ulp_pos)
  have "of_int (round_ties_even (x / ?u)) * ?u \<le> (x / ?u + 1 / 2) * ?u"
    using round_ties_even_upper [of "x / ?u"] u by (intro mult_right_mono) simp_all
  also have "\<dots> = x + ?u / 2" using u by (simp add: field_simps)
  finally show "round_double x \<le> x + ?u / 2" by (simp add: round_double_def)
  have "(x / ?u - 1 / 2) * ?u \<le> of_int (round_ties_even (x / ?u)) * ?u"
    using round_ties_even_lower [of "x / ?u"] u by (intro mult_right_mono) simp_all
  moreover have "(x / ?u - 1 / 2) * ?u = x - ?u / 2" using u by (simp add: field_simps)
  ultimately show "x - ?u / 2 \<le> round_double x" by (simp add: round_double_def)
qed

lemma round_double_near:
  assumes "0 \<le> x" "x < 1024"
  shows "round_double x \<le> x + 1 / 2 ^ 44" "x - 1 / 2 ^ 44 \<le> round_double x" "0 \<le> round_double x"
proof -
  have "ulp \<bar>x\<bar> \<le> 1 / 2 ^ 43" using ulp_le [of "\<bar>x\<bar>"] assms by simp
  then have h: "ulp \<bar>x\<bar> / 2 \<le> 1 / 2 ^ 44" by simp
  show "round_double x \<le> x + 1 / 2 ^ 44" using round_double_error(1) [of x] h by linarith
  show "x - 1 / 2 ^ 44 \<le> round_double x" using round_double_error(2) [of x] h by linarith
  have "0 \<le> x / ulp \<bar>x\<bar>" using assms(1) ulp_pos [of "\<bar>x\<bar>"] by simp
  then have "0 \<le> round_ties_even (x / ulp \<bar>x\<bar>)" by (rule round_ties_even_nonneg)
  then show "0 \<le> round_double x" using ulp_pos [of "\<bar>x\<bar>"] by (simp add: round_double_def)
qed

lemma double_below_one:
  assumes "is_double r" "0 \<le> r" "r < 1"
  shows "r \<le> 1 - 1 / 2 ^ 53"
proof (cases "r < 1 / 2")
  case True
  have "(1::real) / 2 \<le> 1 - 1 / 2 ^ 53" by simp
  with True show ?thesis by linarith
next
  case False
  then have "doublings 1022 r = 1"
    using assms(3) by (simp add: doublings.simps)
  then have u: "ulp \<bar>r\<bar> = 1 / 2 ^ 53" using assms(2,3) by (simp add: ulp_def exponent_def)
  define n where "n = round_ties_even (r / ulp \<bar>r\<bar>)"
  have r: "r = of_int n / 2 ^ 53"
    using assms(1) by (simp add: is_double_def round_double_def n_def u)
  with assms(3) have "real_of_int n < real_of_int (2 ^ 53)" by (simp add: field_simps)
  then have "n < 2 ^ 53" by (simp only: of_int_less_iff)
  then have "n \<le> 2 ^ 53 - 1" by simp
  then have "real_of_int n \<le> real_of_int (2 ^ 53 - 1)" by (simp only: of_int_le_iff)
  then have "real_of_int n \<le> 2 ^ 53 - 1" by simp
  then show ?thesis by (subst r) (simp add: field_simps)
qed

text \<open>
  C5. With \<open>Math.random()\<close> a double from 0 (included) to 1 (excluded),
  \<open>fetchRandomPokemon\<close> computes an id between 1 and 1010, also with the product
  rounded as the code rounds it. The id is \<open>k\<close> only when the random value lies in the
  \<open>k\<close>-th of 1010 intervals of equal width, widened by the rounding error
  \<open>2\<^sup>-\<^sup>4\<^sup>4 / 1010\<close> at both ends, and it is \<open>k\<close> whenever the value lies in that interval
  narrowed by as much: a uniform random value gives a uniform id up to the rounding
  of one product. The call adds exactly one URL, that of this id, to the requests,
  whatever the answer is; a rejected request and an answer whose status is not ok
  make the call throw.
\<close>

theorem fetchRandomPokemon_one_request:
  assumes "is_double (math_random e)" and "0 \<le> math_random e" and "math_random e < 1"
  shows "1 \<le> \<lfloor>round_double (math_random e * 1010)\<rfloor> + 1 \<and>
         \<lfloor>round_double (math_random e * 1010)\<rfloor> + 1 \<le> 1010 \<and>
         (\<forall>k. (\<lfloor>round_double (math_random e * 1010)\<rfloor> + 1 = k \<longrightarrow>
                 (real_of_int (k - 1) - 1 / 2 ^ 44) / 1010 \<le> math_random e \<and>
                 math_random e < (real_of_int k + 1 / 2 ^ 44) / 1010) \<and>
              ((real_of_int (k - 1) + 1 / 2 ^ 44) / 1010 \<le> math_random e \<and>
               math_random e < (real_of_int k - 1 / 2 ^ 44) / 1010 \<longrightarrow>
                 \<lfloor>round_double (math_random e * 1010)\<rfloor> + 1 = k)) \<and>
         requested_url e =
           POKE_API_BASE @ number_toString (\<lfloor>round_double (math_random e * 1010)\<rfloor> + 1) \<and>
         requests (snd (fetchRandomPokemon e st)) = requests st @ [requested_url e] \<and>
         (fetch_reply e (requested_url e) = Rejected \<longrightarrow>
            fst (fetchRandomPokemon e st) = Inl TransportError) \<and>
         (\<forall>resp. fetch_reply e (requested_url e) = Resolved resp \<and> \<not> ok resp \<longrightarrow>
            fst (fetchRandomPokemon e st) = Inl FetchFailed)"
proof -
  define x where "x = math_random e * 1010"
  define y where "y = round_double x"
  have r1: "math_random e \<le> 1 - 1 / 2 ^ 53" by (rule double_below_one [OF assms])
  have x0: "0 \<le> x" using assms(2) by (simp add: x_def)
  have x1: "x \<le> 1010 - 1010 / 2 ^ 53" using r1 by (simp add: x_def)
  then have x2: "x < 1024" by simp
  note near = round_double_near [OF x0 x2, folded y_def]
  have "y \<le> 1010 - 1010 / 2 ^ 53 + 1 / 2 ^ 44" using near(1) x1 by linarith
  then have yhi: "y < 1010" by simp
  then have hi: "\<lfloor>y\<rfloor> < 1010" by (simp add: floor_less_iff)
  have lo: "0 \<le> \<lfloor>y\<rfloor>" using near(3) by simp
  have xr: "math_random e = x / 1010" by (simp add: x_def)
  have uni1: "(real_of_int (k - 1) - 1 / 2 ^ 44) / 1010 \<le> math_random e \<and>
              math_random e < (real_of_int k + 1 / 2 ^ 44) / 1010" if "\<lfloor>y\<rfloor> + 1 = k" for k
  proof -
    from that have "\<lfloor>y\<rfloor> = k - 1" by simp
    then have "real_of_int (k - 1) \<le> y" "y < real_of_int (k - 1) + 1"
      by (simp_all add: floor_eq_iff)
    then have "real_of_int (k - 1) - 1 / 2 ^ 44 \<le> x" "x < real_of_int k + 1 / 2 ^ 44"
      using near(1,2) by simp_all
    then show ?thesis unfolding xr by (simp add: divide_le_cancel divide_less_cancel)
  qed
  have uni2: "\<lfloor>y\<rfloor> + 1 = k"
    if "(real_of_int (k - 1) + 1 / 2 ^ 44) / 1010 \<le> math_random e \<and>
        math_random e < (real_of_int k - 1 / 2 ^ 44) / 1010" for k
  proof -
    from that have "real_of_int (k - 1) + 1 / 2 ^ 44 \<le> x" "x < real_of_int k - 1 / 2 ^ 44"
      unfolding xr by (simp_all add: divide_le_cancel divide_less_cancel)
    then have "real_of_int (k - 1) \<le> y" "y < real_of_int (k - 1) + 1"
      using near(1,2) by simp_all
    then have "\<lfloor>y\<rfloor> = k - 1" by (simp add: floor_eq_iff)
    then show ?thesis by simp
  qed
  have req: "requests (snd (fetchRandomPokemon e st)) = requests st @ [requested_url e]"
    by (simp add: fetchRandomPokemon_snd requested_url_eq)
  have f1: "fst (fetchRandomPokemon e st) = Inl TransportError"
    if "fetch_reply e (requested_url e) = Rejected"
    using that by (simp add: fetchRandomPokemon_fst fetch_outcome_cases requested_url_eq)
  have f2: "fst (fetchRandomPokemon e st) = Inl FetchFailed"
    if "fetch_reply e (requested_url e) = Resolved resp" "\<not> ok resp" for resp
    using that by (simp add: fetchRandomPokemon_fst fetch_outcome_cases requested_url_eq)
  show ?thesis
    using lo hi uni1 uni2 req f1 f2 requested_url_eq unfolding y_def x_def by auto
qed

lemmas double_defs = is_double_def round_double_def ulp_def exponent_def doublings.simps
  halvings.simps round_ties_even_def Let_def

lemma rounding_env_id:
  "\<lfloor>round_double (math_random rounding_env * 1010)\<rfloor> + 1 = 10"
  "\<lfloor>math_random rounding_env * 1010\<rfloor> + 1 = 9"
  by (simp_all add: rounding_env_def double_defs)

theorem fetchRandomPokemon_one_request_witness:
  "is_double (math_random rounding_env) \<and>
   0 \<le> math_random rounding_env \<and> math_random rounding_env < 1 \<and>
   \<lfloor>math_random rounding_env * 1010\<rfloor> + 1 = 9 \<and>
   \<lfloor>round_double (math_random rounding_env * 1010)\<rfloor> + 1 = 10 \<and>
   fetch_reply rounding_env (requested_url rounding_env) = Resolved \<lparr>ok = False, json = Malformed\<rparr> \<and>
   fetchRandomPokemon rounding_env (init_state []) =
     (Inl FetchFailed, (init_state [])\<lparr>requests := [''https://pokeapi.co/api/v2/pokemon/10'']\<rparr>)"
proof -
  have h0: "is_double (math_random rounding_env)" by (simp add: rounding_env_def double_defs)
  have h1: "0 \<le> math_random rounding_env" by (simp add: rounding_env_def)
  have h2: "math_random rounding_env < 1" by (simp add: rounding_env_def)
  have r: "fetch_reply rounding_env (requested_url rounding_env) = Resolved \<lparr>ok = False, json = Malformed\<rparr>"
    by (simp add: rounding_env_def not_found_def)
  have u: "requested_url rounding_env = ''https://pokeapi.co/api/v2/pokemon/10''"
    by (simp add: requested_url_eq rounding_env_id POKE_API_BASE_def number_toString_def digits.simps)
  from fetchRandomPokemon_one_request [OF h0 h1 h2, of "init_state []"] r
  have "fst (fetchRandomPokemon rounding_env (init_state [])) = Inl FetchFailed"
    and "requests (snd (fetchRandomPokemon rounding_env (init_state []))) = requests (init_state []) @ [requested_url rounding_env]"
    by auto
  moreover have "snd (fetchRandomPokemon rounding_env (init_state [])) =
      (init_state [])\<lparr>requests := requests (snd (fetchRandomPokemon rounding_env (init_state [])))\<rparr>"
    by (simp add: fetchRandomPokemon_snd rounding_env_def run_events_def)
  ultimately show ?thesis using h0 h1 h2 r u rounding_env_id
    by (simp add: prod_eq_iff init_state_def)
qed

section \<open>The loop body\<close>

lemma try_block_cases:
  "try_block m e st =
     (case fetch_outcome e of
        Inl err \<Rightarrow> Inl (err, snd (fetchRandomPokemon e st))
      | Inr data \<Rightarrow>
          (case sprites data of
             None \<Rightarrow> Inl (TypeError, snd (fetchRandomPokemon e st))
           | Some s \<Rightarrow>
               (case front_default s of
                  Some sprite \<Rightarrow>
                    if sprite \<noteq> [] then
                      (let second_refresh = setCubeTexture m sprite (snd (fetchRandomPokemon e st))
                       in Inr (second_refresh\<lparr>cubes := cubes second_refresh @ [\<lparr>mesh = m, pokemonData = Some data\<rparr>]\<rparr>))
                    else Inr ((snd (fetchRandomPokemon e st))\<lparr>cubes := cubes (snd (fetchRandomPokemon e st)) @ [\<lparr>mesh = m, pokemonData = None\<rparr>]\<rparr>)
                | None \<Rightarrow> Inr ((snd (fetchRandomPokemon e st))\<lparr>cubes := cubes (snd (fetchRandomPokemon e st)) @ [\<lparr>mesh = m, pokemonData = None\<rparr>]\<rparr>))))"
proof -
  have p: "fetchRandomPokemon e st = (fetch_outcome e, snd (fetchRandomPokemon e st))"
    by (simp add: prod_eq_iff fetchRandomPokemon_fst)
  show ?thesis
    unfolding try_block_def by (subst p) (simp split: sum.splits)
qed

lemma fetchAndBind_cubes [simp]:
  "cubes (fetchAndBind m e st) = cubes st @ [\<lparr>mesh = m, pokemonData = bound_data e\<rparr>]"
  by (simp add: bound_data_def fetchAndBind_def try_block_cases setCubeTexture_def Let_def
      split: sum.splits option.splits)

lemma fetchAndBind_texture_requests [simp]:
  "texture_requests (fetchAndBind m e st) = texture_requests st @ started_loads m e"
  by (simp add: started_loads_def fetchAndBind_def try_block_cases setCubeTexture_def Let_def init_state_def
      split: sum.splits option.splits)

lemma fetchAndBind_fields [simp]:
  "ringGroup (fetchAndBind m e st) = ringGroup st"
  "next_mesh (fetchAndBind m e st) = next_mesh st"
  "lastPokemonIDs (fetchAndBind m e st) = lastPokemonIDs st"
  by (simp_all add: fetchAndBind_def try_block_cases setCubeTexture_def Let_def
      split: sum.splits option.splits)

lemma placeCube_fields [simp]:
  "fst (placeCube i st) = next_mesh st"
  "cubes (snd (placeCube i st)) = cubes st"
  "ringGroup (snd (placeCube i st)) = ringGroup st @ [next_mesh st]"
  "next_mesh (snd (placeCube i st)) = Suc (next_mesh st)"
  "lastPokemonIDs (snd (placeCube i st)) = lastPokemonIDs st"
  "texture_loads (snd (placeCube i st)) = texture_loads st"
  "pokemonInfoDiv (snd (placeCube i st)) = pokemonInfoDiv st"
  "requests (snd (placeCube i st)) = requests st"
  "texture_requests (snd (placeCube i st)) = texture_requests st"
  by (simp_all add: placeCube_def createCube_def Let_def)

lemma bound_data_cases:
  "bound_data e =
     (case fetch_outcome e of
        Inl err \<Rightarrow> None
      | Inr data \<Rightarrow>
          (case sprites data of
             None \<Rightarrow> None
           | Some s \<Rightarrow>
               (case front_default s of
                  Some sprite \<Rightarrow> if sprite \<noteq> [] then Some data else None
                | None \<Rightarrow> None)))"
  by (simp add: bound_data_def fetchAndBind_def try_block_cases setCubeTexture_def Let_def
      split: sum.splits option.splits)

lemma started_loads_cases:
  "started_loads m e =
     (case fetch_outcome e of
        Inl err \<Rightarrow> []
      | Inr data \<Rightarrow>
          (case sprites data of
             None \<Rightarrow> []
           | Some s \<Rightarrow>
               (case front_default s of
                  Some sprite \<Rightarrow> if sprite \<noteq> [] then [(m, sprite)] else []
                | None \<Rightarrow> [])))"
  by (simp add: started_loads_def fetchAndBind_def try_block_cases setCubeTexture_def Let_def init_state_def
      split: sum.splits option.splits)

lemma started_loads_unbound: "bound_data e = None \<Longrightarrow> started_loads m e = []"
  by (auto simp: bound_data_cases started_loads_cases split: sum.splits option.splits if_splits)

lemma started_loads_mesh: "(m', u) \<in> set (started_loads m e) \<Longrightarrow> m' = m"
  by (auto simp: started_loads_cases split: sum.splits option.splits if_splits)

lemma failed_fetch_unbound:
  assumes "fetch_reply e (requested_url e) = Rejected \<or>
           (\<exists>resp. fetch_reply e (requested_url e) = Resolved resp \<and> \<not> ok resp)"
  shows "bound_data e = None"
  using assms
  by (auto simp: bound_data_cases fetch_outcome_cases requested_url_eq)

lemma failed_fetch_caught:
  assumes "fetch_reply e (requested_url e) = Rejected \<or>
           (\<exists>resp. fetch_reply e (requested_url e) = Resolved resp \<and> \<not> ok resp)"
  shows "\<exists>err s1. try_block m e s0 = Inl (err, s1) \<and>
           fetchAndBind m e s0 =
             s1\<lparr>console := console s1 @ [ErrorFetching err],
                cubes := cubes s1 @ [\<lparr>mesh = m, pokemonData = None\<rparr>]\<rparr>"
  using assms
  by (auto simp: fetchAndBind_def try_block_cases fetch_outcome_cases requested_url_eq)

section \<open>The loop\<close>

lemma loop_completes:
  "NUM_CUBES - i \<le> length env \<Longrightarrow> \<exists>st'. createPokemonRing_loop i env st = Some st'"
proof (induction i env st rule: createPokemonRing_loop.induct)
  case (1 i env st)
  show ?case
  proof (cases "i < NUM_CUBES")
    case False
    then show ?thesis by (simp add: createPokemonRing_loop.simps)
  next
    case True
    with "1.prems" obtain e env' where env: "env = e # env'" by (cases env) auto
    have "NUM_CUBES - (i + 1) \<le> length env'" using "1.prems" env by simp
    from "1.IH" [OF True env this] show ?thesis
      using True env by (subst createPokemonRing_loop.simps) simp
  qed
qed

lemma loop_hangs:
  "length env < NUM_CUBES - i \<Longrightarrow> createPokemonRing_loop i env st = None"
proof (induction i env st rule: createPokemonRing_loop.induct)
  case (1 i env st)
  from "1.prems" have lt: "i < NUM_CUBES" by simp
  show ?case
  proof (cases env)
    case Nil
    then show ?thesis using lt by (subst createPokemonRing_loop.simps) simp
  next
    case (Cons e env')
    have "length env' < NUM_CUBES - (i + 1)" using "1.prems" Cons by simp
    from "1.IH" [OF lt Cons this] show ?thesis
      using lt Cons by (subst createPokemonRing_loop.simps) simp
  qed
qed

lemma loop_result:
  assumes "createPokemonRing_loop i env st = Some st'"
  shows "cubes st' = cubes st @ map (\<lambda>(m, e). \<lparr>mesh = m, pokemonData = bound_data e\<rparr>)
                                  (zip [next_mesh st ..< next_mesh st + (NUM_CUBES - i)] env)
       \<and> ringGroup st' = ringGroup st @ [next_mesh st ..< next_mesh st + (NUM_CUBES - i)]
       \<and> next_mesh st' = next_mesh st + (NUM_CUBES - i)
       \<and> lastPokemonIDs st' = lastPokemonIDs st
       \<and> texture_requests st' = texture_requests st @ concat (map (\<lambda>(m, e). started_loads m e)
                                  (zip [next_mesh st ..< next_mesh st + (NUM_CUBES - i)] env))"
  using assms
proof (induction i env st rule: createPokemonRing_loop.induct)
  case (1 i env st)
  show ?case
  proof (cases "i < NUM_CUBES")
    case False
    then show ?thesis using "1.prems" by (simp add: createPokemonRing_loop.simps)
  next
    case True
    with "1.prems" obtain e env' where env: "env = e # env'"
      by (cases env) (auto simp: createPokemonRing_loop.simps)
    let ?st1 = "fetchAndBind (fst (placeCube i st)) e (snd (placeCube i st))"
    have rec: "createPokemonRing_loop (i + 1) env' ?st1 = Some st'"
      using "1.prems" True env by (subst (asm) createPokemonRing_loop.simps) simp
    have e1: "Suc (next_mesh st) + (NUM_CUBES - (i + 1)) = next_mesh st + (NUM_CUBES - i)"
      using True by arith
    have upt: "[next_mesh st ..< next_mesh st + (NUM_CUBES - i)] =
          next_mesh st # [Suc (next_mesh st) ..< Suc (next_mesh st) + (NUM_CUBES - (i + 1))]"
      unfolding e1 using True by (intro upt_conv_Cons) arith
    from "1.IH" [OF True env rec] True show ?thesis
      unfolding upt env by simp
  qed
qed

section \<open>One call of createPokemonRing\<close>

lemma removeExisting_fields [simp]:
  "cubes (removeExisting st) = []"
  "next_mesh (removeExisting st) = next_mesh st"
  "lastPokemonIDs (removeExisting st) = lastPokemonIDs st"
  "texture_requests (removeExisting st) = texture_requests st"
  "texture_loads (removeExisting st) = texture_loads st"
  "heap (removeExisting st) = heap st"
  "pokemonInfoDiv (removeExisting st) = pokemonInfoDiv st"
  by (simp_all add: removeExisting_def)

lemma remove_all_heads:
  "foldl (\<lambda>children c. remove1 (f c) children) (map f cs @ rest) cs = rest"
  by (induction cs) simp_all

lemma removeExisting_ring_wf: "ring_wf st \<Longrightarrow> ringGroup (removeExisting st) = []"
  using remove_all_heads [of mesh "cubes st" "[]"]
  by (simp add: removeExisting_def ring_wf_def)

lemma createPokemonRing_completes:
  "NUM_CUBES \<le> length env \<Longrightarrow> \<exists>st'. createPokemonRing env st = Some st'"
  using loop_completes [of 0 env "removeExisting st"]
  by (auto simp: createPokemonRing_def)

lemma createPokemonRing_hangs:
  "length env < NUM_CUBES \<Longrightarrow> createPokemonRing env st = None"
  using loop_hangs [of env 0 "removeExisting st"]
  by (simp add: createPokemonRing_def)

lemma createPokemonRing_result:
  assumes "createPokemonRing env st = Some st'"
  shows "NUM_CUBES \<le> length env"
    and "cubes st' = map (\<lambda>(m, e). \<lparr>mesh = m, pokemonData = bound_data e\<rparr>)
                       (zip [next_mesh st ..< next_mesh st + NUM_CUBES] env)"
    and "ringGroup st' = ringGroup (removeExisting st) @ [next_mesh st ..< next_mesh st + NUM_CUBES]"
    and "next_mesh st' = next_mesh st + NUM_CUBES"
    and "lastPokemonIDs st' = Some (pokemonIDs (cubes st'))"
    and "texture_requests st' = texture_requests st @ concat (map (\<lambda>(m, e). started_loads m e)
                                  (zip [next_mesh st ..< next_mesh st + NUM_CUBES] env))"
proof -
  show "NUM_CUBES \<le> length env"
    using assms createPokemonRing_hangs [of env st] by (cases "length env < NUM_CUBES") auto
  from assms obtain s1 where l: "createPokemonRing_loop 0 env (removeExisting st) = Some s1"
    and st': "st' = s1\<lparr>lastPokemonIDs := Some (pokemonIDs (cubes s1)),
                        console := console s1 @ [PokemonIDs (pokemonIDs (cubes s1))]\<rparr>"
    by (auto simp: createPokemonRing_def split: option.splits)
  note r = loop_result [OF l]
  show "cubes st' = map (\<lambda>(m, e). \<lparr>mesh = m, pokemonData = bound_data e\<rparr>)
                       (zip [next_mesh st ..< next_mesh st + NUM_CUBES] env)"
    using r by (simp add: st')
  show "ringGroup st' = ringGroup (removeExisting st) @ [next_mesh st ..< next_mesh st + NUM_CUBES]"
    using r by (simp add: st')
  show "next_mesh st' = next_mesh st + NUM_CUBES"
    using r by (simp add: st')
  show "lastPokemonIDs st' = Some (pokemonIDs (cubes st'))"
    by (simp add: st')
  show "texture_requests st' = texture_requests st @ concat (map (\<lambda>(m, e). started_loads m e)
                                  (zip [next_mesh st ..< next_mesh st + NUM_CUBES] env))"
    using r by (simp add: st')
qed

lemma createPokemonRing_length:
  assumes "createPokemonRing env st = Some st'"
  shows "length (cubes st') = NUM_CUBES"
  using createPokemonRing_result(1,2) [OF assms] by simp

lemma createPokemonRing_slot:
  assumes "createPokemonRing env st = Some st'" and "i < NUM_CUBES"
  shows "cubes st' ! i = \<lparr>mesh = next_mesh st + i, pokemonData = bound_data (env ! i)\<rparr>"
  using createPokemonRing_result(1,2) [OF assms(1)] assms(2) by simp

lemma createPokemonRing_meshes:
  assumes "createPokemonRing env st = Some st'"
  shows "map mesh (cubes st') = [next_mesh st ..< next_mesh st + NUM_CUBES]"
proof -
  note r = createPokemonRing_result [OF assms]
  have "map mesh (cubes st') = map fst (zip [next_mesh st ..< next_mesh st + NUM_CUBES] env)"
    unfolding r(2) by (simp add: case_prod_beta)
  also have "\<dots> = [next_mesh st ..< next_mesh st + NUM_CUBES]"
    using r(1) by (simp add: map_fst_zip_take)
  finally show ?thesis .
qed

lemma createPokemonRing_ringGroup:
  assumes "ring_wf st" and "createPokemonRing env st = Some st'"
  shows "ringGroup st' = [next_mesh st ..< next_mesh st + NUM_CUBES]"
  using createPokemonRing_result(3) [OF assms(2)] removeExisting_ring_wf [OF assms(1)] by simp

section \<open>Pending loads and the store of meshes\<close>

lemma textureLoaded_loads: "set (texture_loads (textureLoaded k st)) \<subseteq> set (texture_loads st)"
  by (auto simp: textureLoaded_def texture_onLoad_def dest: in_set_takeD in_set_dropD)

lemma handle_event_loads: "set (texture_loads (handle_event ev st)) \<subseteq> set (texture_loads st)"
  using textureLoaded_loads
  by (cases ev) (auto split: sum.splits simp: onClick_fields)

lemma run_events_loads: "set (texture_loads (run_events evs st)) \<subseteq> set (texture_loads st)"
  unfolding run_events_def
proof (induction evs arbitrary: st)
  case Nil
  then show ?case by simp
next
  case (Cons ev evs)
  have "set (texture_loads (fold handle_event evs (handle_event ev st)))
          \<subseteq> set (texture_loads (handle_event ev st))"
    by (rule Cons.IH)
  also have "\<dots> \<subseteq> set (texture_loads st)" by (rule handle_event_loads)
  finally show ?case by simp
qed

lemma fetchAndBind_loads:
  "set (texture_loads (fetchAndBind m e st)) \<subseteq> set (texture_loads st) \<union> {m} \<times> UNIV"
proof -
  have "set (texture_loads (snd (fetchRandomPokemon e st))) \<subseteq> set (texture_loads st)"
    using run_events_loads [of "meanwhile e" "st\<lparr>requests := requests st @
        [POKE_API_BASE @ number_toString (\<lfloor>round_double (math_random e * 1010)\<rfloor> + 1)]\<rparr>"]
    by (simp add: fetchRandomPokemon_snd)
  then show ?thesis
    by (auto simp: fetchAndBind_def try_block_cases setCubeTexture_def Let_def
        split: sum.splits option.splits if_splits)
qed

lemma textureLoaded_position [simp]:
  "position_index (heap (textureLoaded k st) m) = position_index (heap st m)"
  by (simp add: textureLoaded_def texture_onLoad_def)

lemma handle_event_position [simp]:
  "position_index (heap (handle_event ev st) m) = position_index (heap st m)"
  by (cases ev) (simp_all split: sum.splits add: onClick_fields)

lemma run_events_position [simp]:
  "position_index (heap (run_events evs st) m) = position_index (heap st m)"
  unfolding run_events_def by (induction evs arbitrary: st) simp_all

lemma fetchAndBind_position [simp]:
  "position_index (heap (fetchAndBind m' e st) m) = position_index (heap st m)"
  by (simp add: fetchAndBind_def try_block_cases setCubeTexture_def Let_def fetchRandomPokemon_snd
      split: sum.splits option.splits)

lemma placeCube_position:
  "position_index (heap (snd (placeCube i st)) m) =
     (if m = next_mesh st then Some i else position_index (heap st m))"
  by (simp add: placeCube_def createCube_def Let_def)

lemma loop_position:
  assumes "createPokemonRing_loop i env st = Some st'"
  shows "(\<forall>m < next_mesh st. position_index (heap st' m) = position_index (heap st m)) \<and>
         (\<forall>k < NUM_CUBES - i. position_index (heap st' (next_mesh st + k)) = Some (i + k))"
  using assms
proof (induction i env st rule: createPokemonRing_loop.induct)
  case (1 i env st)
  show ?case
  proof (cases "i < NUM_CUBES")
    case False
    then show ?thesis using "1.prems" by (simp add: createPokemonRing_loop.simps)
  next
    case True
    with "1.prems" obtain e env' where env: "env = e # env'"
      by (cases env) (auto simp: createPokemonRing_loop.simps)
    let ?st1 = "fetchAndBind (fst (placeCube i st)) e (snd (placeCube i st))"
    have rec: "createPokemonRing_loop (i + 1) env' ?st1 = Some st'"
      using "1.prems" True env by (subst (asm) createPokemonRing_loop.simps) simp
    note ih = "1.IH" [OF True env rec]
    have nm: "next_mesh ?st1 = Suc (next_mesh st)" by simp
    have old: "position_index (heap st' m) = position_index (heap st m)" if "m < next_mesh st" for m
    proof -
      have "position_index (heap st' m) = position_index (heap ?st1 m)"
        using ih that nm by simp
      then show ?thesis using that by (simp add: placeCube_position)
    qed
    have new: "position_index (heap st' (next_mesh st + k)) = Some (i + k)"
      if k: "k < NUM_CUBES - i" for k
    proof (cases k)
      case 0
      have "position_index (heap st' (next_mesh st)) = position_index (heap ?st1 (next_mesh st))"
        using ih nm by simp
      then show ?thesis using 0 by (simp add: placeCube_position)
    next
      case (Suc j)
      then have "j < NUM_CUBES - (i + 1)" using k by simp
      with ih have "position_index (heap st' (next_mesh ?st1 + j)) = Some (i + 1 + j)" by blast
      then show ?thesis using Suc nm by simp
    qed
    show ?thesis using old new by blast
  qed
qed

lemma loop_loads:
  assumes "createPokemonRing_loop i env st = Some st'"
    and "list_all (\<lambda>(m, u). m < next_mesh st) (texture_loads st)"
  shows "list_all (\<lambda>(m, u). m < next_mesh st') (texture_loads st')"
  using assms
proof (induction i env st rule: createPokemonRing_loop.induct)
  case (1 i env st)
  show ?case
  proof (cases "i < NUM_CUBES")
    case False
    then show ?thesis using "1.prems" by (simp add: createPokemonRing_loop.simps)
  next
    case True
    with "1.prems" obtain e env' where env: "env = e # env'"
      by (cases env) (auto simp: createPokemonRing_loop.simps)
    let ?st1 = "fetchAndBind (fst (placeCube i st)) e (snd (placeCube i st))"
    have rec: "createPokemonRing_loop (i + 1) env' ?st1 = Some st'"
      using "1.prems" True env by (subst (asm) createPokemonRing_loop.simps) simp
    have "set (texture_loads ?st1) \<subseteq> set (texture_loads st) \<union> {next_mesh st} \<times> UNIV"
      using fetchAndBind_loads [of "fst (placeCube i st)" e "snd (placeCube i st)"] by simp
    with "1.prems"(2) have "list_all (\<lambda>(m, u). m < next_mesh ?st1) (texture_loads ?st1)"
      by (fastforce simp: list_all_iff)
    from "1.IH" [OF True env rec this] show ?thesis .
  qed
qed

lemma started_loads_in_zip:
  assumes "(m, u) \<in> set (concat (map (\<lambda>(m, e). started_loads m e) (zip [a ..< a + n] env)))"
  shows "\<exists>j < n. j < length env \<and> m = a + j \<and> (m, u) \<in> set (started_loads m (env ! j))"
proof -
  from assms obtain m' e where z: "(m', e) \<in> set (zip [a ..< a + n] env)"
    and l: "(m, u) \<in> set (started_loads m' e)" by auto
  from l have mm: "m' = m" by (rule started_loads_mesh [symmetric])
  from z obtain j where j: "j < n" "j < length env" "[a ..< a + n] ! j = m'" "env ! j = e"
    by (auto simp: in_set_zip)
  then show ?thesis using l mm by auto
qed

section \<open>The invariant between calls\<close>

text \<open>
  \<open>ring_wf\<close> holds when \<open>main\<close> starts, and every completed call of
  \<open>createPokemonRing\<close>, every click and every completed texture load keeps it.
\<close>

lemma ring_wf_init: "ring_wf (init_state html)"
  by (simp add: ring_wf_def init_state_def)

lemma ring_wf_onClick: "ring_wf st \<Longrightarrow> onClick ray st = Inr st' \<Longrightarrow> ring_wf st'"
  by (auto simp: ring_wf_def onClick_fields)

lemma ring_wf_textureLoaded: "ring_wf st \<Longrightarrow> ring_wf (textureLoaded k st)"
  using textureLoaded_loads [of k st]
  by (auto simp: ring_wf_def list_all_iff)

lemma ring_wf_createPokemonRing:
  assumes "ring_wf st" and "createPokemonRing env st = Some st'"
  shows "ring_wf st'"
proof -
  from assms(2) obtain s1 where l: "createPokemonRing_loop 0 env (removeExisting st) = Some s1"
    and st': "st' = s1\<lparr>lastPokemonIDs := Some (pokemonIDs (cubes s1)),
                        console := console s1 @ [PokemonIDs (pokemonIDs (cubes s1))]\<rparr>"
    by (auto simp: createPokemonRing_def split: option.splits)
  have "list_all (\<lambda>(m, u). m < next_mesh (removeExisting st)) (texture_loads (removeExisting st))"
    using assms(1) by (simp add: ring_wf_def)
  from loop_loads [OF l this] have loads: "list_all (\<lambda>(m, u). m < next_mesh st') (texture_loads st')"
    by (simp add: st')
  have g: "ringGroup st' = [next_mesh st ..< next_mesh st + NUM_CUBES]"
    by (rule createPokemonRing_ringGroup [OF assms])
  have n: "next_mesh st' = next_mesh st + NUM_CUBES"
    by (rule createPokemonRing_result(4) [OF assms(2)])
  show ?thesis
    unfolding ring_wf_def using loads createPokemonRing_meshes [OF assms(2)]
    by (simp add: g n list_all_iff)
qed

section \<open>The example run\<close>

lemmas step_defs = createPokemonRing_def removeExisting_def placeCube_def createCube_def
  fetchAndBind_def try_block_def fetchRandomPokemon_def setCubeTexture_def run_events_def
  textureLoaded_def texture_onLoad_def onClick_def intersectObjects_def showPokemonInfo_def
  pokemonIDs_def Let_def NUM_CUBES_def init_state_def

lemmas example_defs = example_env_def quiet_env_def answer_def not_found_def
  charizard_def pikachu_def spriteless_def

lemma upt10: "[0 ..< 10] = [0, 1, 2, 3, 4, 5, 6, 7, 8, 9 :: nat]"
  by (simp add: upt_rec)

lemma example_len: "length example_env = 10" by (simp add: example_env_def)

lemma example_bound:
  "map bound_data example_env =
     [Some charizard, None, None, None, Some pikachu, None, None, None, Some charizard, None]"
  by (simp add: example_env_def bound_data_cases fetch_outcome_cases answer_def not_found_def
      charizard_def pikachu_def spriteless_def)

lemma first_refresh_some: "createPokemonRing example_env (init_state []) = Some first_refresh"
  using createPokemonRing_completes [of example_env "init_state []"]
  by (auto simp: example_len NUM_CUBES_def first_refresh_def)

lemma first_refresh_cubes:
  "cubes first_refresh = map (\<lambda>(m, d). \<lparr>mesh = m, pokemonData = d\<rparr>)
     (zip [0 ..< 10] [Some charizard, None, None, None, Some pikachu, None, None, None, Some charizard, None])"
proof -
  obtain st' where st': "createPokemonRing example_env (init_state []) = Some st'"
    using createPokemonRing_completes [of example_env "init_state []"]
    by (auto simp: example_len NUM_CUBES_def)
  have "cubes st' = map (\<lambda>(m, d). \<lparr>mesh = m, pokemonData = d\<rparr>) (zip [0 ..< 10] (map bound_data example_env))"
    unfolding createPokemonRing_result(2) [OF st']
    by (simp add: NUM_CUBES_def init_state_def zip_map2 case_prod_beta)
  then show ?thesis using st' by (simp add: first_refresh_def example_bound)
qed

lemma first_refresh_ringGroup: "ringGroup first_refresh = [0 ..< 10]"
proof -
  obtain st' where st': "createPokemonRing example_env (init_state []) = Some st'"
    using createPokemonRing_completes [of example_env "init_state []"]
    by (auto simp: example_len NUM_CUBES_def)
  show ?thesis
    using createPokemonRing_ringGroup [OF ring_wf_init st'] st'
    by (simp add: first_refresh_def NUM_CUBES_def init_state_def)
qed

lemma first_refresh_next: "next_mesh first_refresh = 10"
  using createPokemonRing_result(4) [OF first_refresh_some] by (simp add: init_state_def NUM_CUBES_def)

lemma first_refresh_requests:
  "texture_requests first_refresh =
     [(0, ''https://img/6.png''), (4, ''https://img/25.png''), (8, ''https://img/6.png'')]"
  unfolding createPokemonRing_result(6) [OF first_refresh_some]
  by (simp add: NUM_CUBES_def init_state_def upt10 example_env_def started_loads_cases
      fetch_outcome_cases answer_def not_found_def charizard_def pikachu_def spriteless_def)

lemma first_refresh_loads: "texture_loads first_refresh = [(4, ''https://img/25.png''), (8, ''https://img/6.png'')]"
  unfolding first_refresh_def
  by (simp add: step_defs createPokemonRing_loop.simps example_env_def answer_def not_found_def
      charizard_def pikachu_def spriteless_def)

lemma first_await_reached:
  "snd (fetchRandomPokemon (example_env ! 0) (snd (placeCube 0 (removeExisting (init_state []))))) =
     handle_event (Click [0]) first_await"
  by (simp add: fetchRandomPokemon_snd first_await_def Let_def requested_url_eq example_env_def
      run_events_def)


lemma first_refresh_wf: "ring_wf first_refresh"
  by (rule ring_wf_createPokemonRing [OF ring_wf_init first_refresh_some])

lemma second_refresh_some: "createPokemonRing quiet_env first_refresh = Some second_refresh"
  using createPokemonRing_completes [of quiet_env first_refresh]
  by (auto simp: quiet_env_def NUM_CUBES_def second_refresh_def)

lemma second_refresh_loads: "texture_loads second_refresh = [(4, ''https://img/25.png''), (8, ''https://img/6.png'')]"
proof -
  have "texture_loads (the (createPokemonRing quiet_env first_refresh)) = texture_loads first_refresh"
    by (simp add: step_defs createPokemonRing_loop.simps quiet_env_def not_found_def
        numeral_eq_Suc)
  then show ?thesis by (simp add: second_refresh_def first_refresh_loads)
qed

lemma second_refresh_heap4: "material_map (heap second_refresh 4) = None"
proof -
  have "heap (the (createPokemonRing quiet_env first_refresh)) 4 = heap first_refresh 4"
    by (simp add: step_defs createPokemonRing_loop.simps quiet_env_def not_found_def
        numeral_eq_Suc first_refresh_next)
  moreover have "material_map (heap first_refresh 4) = None"
    unfolding first_refresh_def
    by (simp add: step_defs createPokemonRing_loop.simps example_env_def answer_def not_found_def
      charizard_def pikachu_def spriteless_def)
  ultimately show ?thesis by (simp add: second_refresh_def)
qed

section \<open>The identifier list\<close>

text \<open>
  C1. After every completed call of \<open>createPokemonRing\<close>, whatever the fetches
  answered, \<open>window.lastPokemonIDs\<close> has exactly \<open>NUM_CUBES = 10\<close> entries. Entry \<open>i\<close>
  belongs to the cube made in iteration \<open>i\<close> of the loop, and it is \<open>null\<close> when that
  cube has no data and the id of its record otherwise. The id is a positive integer
  when the records the server delivers have positive ids, as the data model says.
\<close>

theorem lastPokemonIDs_after_refresh:
  assumes "createPokemonRing env st = Some st'"
    and "\<forall>e \<in> set env. \<forall>d. fetch_outcome e = Inr d \<longrightarrow> 0 < id_num d"
  shows "\<exists>ids. lastPokemonIDs st' = Some ids \<and> length ids = NUM_CUBES \<and> NUM_CUBES = 10 \<and>
           length (cubes st') = NUM_CUBES \<and>
           (\<forall>i < NUM_CUBES.
              cubes st' ! i = \<lparr>mesh = next_mesh st + i, pokemonData = bound_data (env ! i)\<rparr> \<and>
              ((pokemonData (cubes st' ! i) = None \<and> ids ! i = None) \<or>
               (\<exists>d. pokemonData (cubes st' ! i) = Some d \<and> ids ! i = Some (id_num d) \<and>
                    0 < id_num d)))"
proof -
  note r = createPokemonRing_result [OF assms(1)]
  have len: "length (cubes st') = NUM_CUBES"
    by (rule createPokemonRing_length [OF assms(1)])
  have slot: "(pokemonData (cubes st' ! i) = None \<and> pokemonIDs (cubes st') ! i = None) \<or>
        (\<exists>d. pokemonData (cubes st' ! i) = Some d \<and> pokemonIDs (cubes st') ! i = Some (id_num d)
             \<and> 0 < id_num d)" if i: "i < NUM_CUBES" for i
  proof (cases "bound_data (env ! i)")
    case None
    then show ?thesis
      using createPokemonRing_slot [OF assms(1) i] i len by (simp add: pokemonIDs_def)
  next
    case (Some d)
    have mem: "env ! i \<in> set env" using i r(1) by simp
    have "fetch_outcome (env ! i) = Inr d"
      using Some by (simp add: bound_data_cases split: sum.splits option.splits if_splits)
    with assms(2) mem have "0 < id_num d" by blast
    then show ?thesis
      using Some createPokemonRing_slot [OF assms(1) i] i len by (simp add: pokemonIDs_def)
  qed
  show ?thesis
    using r(5) len slot createPokemonRing_slot [OF assms(1)]
    by (simp add: NUM_CUBES_def pokemonIDs_def)
qed

theorem lastPokemonIDs_after_refresh_witness:
  "createPokemonRing example_env (init_state []) \<noteq> None \<and>
   list_all (\<lambda>e. case fetch_outcome e of Inl err \<Rightarrow> True | Inr d \<Rightarrow> 0 < id_num d) example_env \<and>
   lastPokemonIDs (the (createPokemonRing example_env (init_state []))) =
     Some [Some 6, None, None, None, Some 25, None, None, None, Some 6, None]"
proof -
  obtain st' where st': "createPokemonRing example_env (init_state []) = Some st'"
    using createPokemonRing_completes [of example_env "init_state []"]
    by (auto simp: example_len NUM_CUBES_def)
  have v: "list_all (\<lambda>e. case fetch_outcome e of Inl err \<Rightarrow> True | Inr d \<Rightarrow> 0 < id_num d) example_env"
    by (simp add: example_env_def fetch_outcome_cases answer_def not_found_def
      charizard_def pikachu_def spriteless_def)
  then have h: "\<forall>e \<in> set example_env. \<forall>d. fetch_outcome e = Inr d \<longrightarrow> 0 < id_num d"
    by (auto simp: list_all_iff)
  have c: "cubes st' = map (\<lambda>(m, e). \<lparr>mesh = m, pokemonData = bound_data e\<rparr>)
                       (zip [0 ..< 10] example_env)"
    using createPokemonRing_result(2) [OF st'] by (simp add: init_state_def NUM_CUBES_def)
  have "map pokemonData (cubes st') = map bound_data example_env"
    unfolding c by (simp add: example_env_def upt_rec)
  then have d: "map pokemonData (cubes st') = [Some charizard, None, None, None, Some pikachu, None, None, None, Some charizard, None]"
    by (simp add: example_bound)
  have p: "pokemonIDs (cubes st') = map (\<lambda>x. case x of Some d \<Rightarrow> Some (id_num d) | None \<Rightarrow> None) (map pokemonData (cubes st'))"
    by (simp add: pokemonIDs_def)
  from lastPokemonIDs_after_refresh [OF st' h] obtain ids where
    ids: "lastPokemonIDs st' = Some ids" by blast
  have "ids = pokemonIDs (cubes st')"
    using ids createPokemonRing_result(5) [OF st'] by simp
  then have "ids = [Some 6, None, None, None, Some 25, None, None, None, Some 6, None]"
    unfolding p d by (simp add: charizard_def pikachu_def)
  then show ?thesis using st' v ids by simp
qed

section \<open>Failed fetches\<close>

text \<open>
  C3. When every awaited fetch settles, the call of \<open>createPokemonRing\<close> completes:
  it makes all \<open>NUM_CUBES\<close> cubes, and the data of cube \<open>i\<close> depends on fetch \<open>i\<close>
  alone. A fetch that is rejected, or answered with a status that is not ok, throws
  inside the \<open>try\<close> block; the \<open>catch\<close> clause logs the error and pushes the cube
  with \<open>pokemonData = null\<close>, and the loop goes on.
\<close>

theorem fetch_failure_contained:
  assumes "NUM_CUBES \<le> length env"
  shows "\<exists>st'. createPokemonRing env st = Some st' \<and> length (cubes st') = NUM_CUBES \<and>
           (\<forall>i < NUM_CUBES.
              cubes st' ! i = \<lparr>mesh = next_mesh st + i, pokemonData = bound_data (env ! i)\<rparr> \<and>
              (fetch_reply (env ! i) (requested_url (env ! i)) = Rejected \<or>
               (\<exists>resp. fetch_reply (env ! i) (requested_url (env ! i)) = Resolved resp \<and> \<not> ok resp)
               \<longrightarrow> pokemonData (cubes st' ! i) = None \<and>
                   (\<forall>m s0. \<exists>err s1. try_block m (env ! i) s0 = Inl (err, s1) \<and>
                      fetchAndBind m (env ! i) s0 =
                        s1\<lparr>console := console s1 @ [ErrorFetching err],
                           cubes := cubes s1 @ [\<lparr>mesh = m, pokemonData = None\<rparr>]\<rparr>)))"
proof -
  from createPokemonRing_completes [OF assms] obtain st' where
    st': "createPokemonRing env st = Some st'" by blast
  have len: "length (cubes st') = NUM_CUBES" by (rule createPokemonRing_length [OF st'])
  have slot: "cubes st' ! i = \<lparr>mesh = next_mesh st + i, pokemonData = bound_data (env ! i)\<rparr>"
    if "i < NUM_CUBES" for i
    by (rule createPokemonRing_slot [OF st' that])
  have fail: "pokemonData (cubes st' ! i) = None \<and>
                   (\<forall>m s0. \<exists>err s1. try_block m (env ! i) s0 = Inl (err, s1) \<and>
                      fetchAndBind m (env ! i) s0 =
                        s1\<lparr>console := console s1 @ [ErrorFetching err],
                           cubes := cubes s1 @ [\<lparr>mesh = m, pokemonData = None\<rparr>]\<rparr>)"
    if "i < NUM_CUBES"
      and "fetch_reply (env ! i) (requested_url (env ! i)) = Rejected \<or>
           (\<exists>resp. fetch_reply (env ! i) (requested_url (env ! i)) = Resolved resp \<and> \<not> ok resp)"
    for i
    using slot [OF that(1)] failed_fetch_unbound [OF that(2)] failed_fetch_caught [OF that(2)]
    by simp
  show ?thesis using st' len slot fail by blast
qed

theorem fetch_failure_contained_witness:
  "NUM_CUBES \<le> length example_env \<and>
   fetch_reply (example_env ! 1) (requested_url (example_env ! 1)) = Resolved \<lparr>ok = False, json = Malformed\<rparr> \<and>
   fetch_reply (example_env ! 3) (requested_url (example_env ! 3)) = Rejected \<and>
   createPokemonRing example_env (init_state []) \<noteq> None \<and>
   map pokemonData (cubes (the (createPokemonRing example_env (init_state [])))) =
     [Some charizard, None, None, None, Some pikachu, None, None, None, Some charizard, None]"
proof -
  have h: "NUM_CUBES \<le> length example_env" by (simp add: example_env_def NUM_CUBES_def)
  from fetch_failure_contained [OF h, of "init_state []"] obtain st' where
    st': "createPokemonRing example_env (init_state []) = Some st'"
    and len: "length (cubes st') = NUM_CUBES"
    and slots: "\<forall>i < NUM_CUBES. cubes st' ! i =
        \<lparr>mesh = next_mesh (init_state []) + i, pokemonData = bound_data (example_env ! i)\<rparr>"
    by auto
  have "map pokemonData (cubes st') = map bound_data example_env"
    using len slots h by (auto simp: list_eq_iff_nth_eq example_len NUM_CUBES_def)
  then show ?thesis
    using h st' by (simp add: example_bound) (simp add: example_defs)
qed

section \<open>Looking up the cube of a mesh\<close>

lemma find_mesh:
  assumes "distinct (map mesh cs)" and "c \<in> set cs"
  shows "find (\<lambda>x. mesh x = mesh c) cs = Some c"
  using assms
proof (induction cs)
  case Nil
  then show ?case by simp
next
  case (Cons x xs)
  show ?case
  proof (cases "x = c")
    case True
    then show ?thesis by simp
  next
    case False
    with Cons.prems have "c \<in> set xs" by simp
    then have "mesh x \<noteq> mesh c" using Cons.prems(1) by force
    with Cons \<open>c \<in> set xs\<close> show ?thesis by simp
  qed
qed



section \<open>Records without a sprite\<close>

text \<open>
  The claim C2 says that a record whose sprite URL is absent or empty is bound to
  its slot. The code pushes the cube with \<open>pokemonData = null\<close> instead: in the
  example run the third fetch delivers a record without a sprite, the third cube has
  no data, and a click on it shows the text for missing data.
\<close>

theorem spriteless_slot_bound_counterexample:
  "fetch_outcome (example_env ! 2) = Inr spriteless \<and>
   sprites spriteless = Some \<lparr>front_default = None\<rparr> \<and>
   pokemonData (cubes first_refresh ! 2) = None \<and>
   pokemonData (cubes first_refresh ! 2) \<noteq> Some spriteless \<and>
   onClick [mesh (cubes first_refresh ! 2)] first_refresh = Inr (first_refresh\<lparr>pokemonInfoDiv := ''<div>No data available.</div>''\<rparr>)"
proof -
  have a: "fetch_outcome (example_env ! 2) = Inr spriteless"
    by (simp add: fetch_outcome_cases example_defs)
  have b: "sprites spriteless = Some \<lparr>front_default = None\<rparr>" by (simp add: spriteless_def)
  have u: "[0 ..< 10] = [0, 1, 2, 3, 4, 5, 6, 7, 8, 9 :: nat]" by (simp add: upt_rec)
  have c: "cubes first_refresh ! 2 = \<lparr>mesh = 2, pokemonData = None\<rparr>"
    by (simp add: first_refresh_cubes u)
  have "onClick [2] first_refresh = Inr (first_refresh\<lparr>pokemonInfoDiv := ''<div>No data available.</div>''\<rparr>)"
    by (simp add: onClick_def intersectObjects_def first_refresh_ringGroup first_refresh_cubes u Let_def)
  then show ?thesis using a b c by simp
qed

text \<open>
  C2, amended. For every slot whose fetch delivers a record with an absent
  (\<open>null\<close>) or empty sprite URL, \<open>createPokemonRing\<close> leaves the slot without data (its
  entry in \<open>window.lastPokemonIDs\<close> is \<open>null\<close>), starts no texture load for the slot's
  mesh, and throws nothing: the \<open>try\<close> block ends normally and the call completes.
  The slot's mesh is in the group, and every click whose nearest hit is this mesh
  writes the text \<open>No data available.\<close>
\<close>

theorem spriteless_slot_unbound:
  assumes "NUM_CUBES \<le> length env" and "i < NUM_CUBES"
    and "fetch_outcome (env ! i) = Inr d" and "sprites d = Some s"
    and "front_default s = None \<or> front_default s = Some []"
  shows "\<exists>st'. createPokemonRing env st = Some st' \<and>
           pokemonData (cubes st' ! i) = None \<and>
           (\<exists>ids. lastPokemonIDs st' = Some ids \<and> ids ! i = None) \<and>
           (\<forall>u. (mesh (cubes st' ! i), u) \<notin>
                  set (drop (length (texture_requests st)) (texture_requests st'))) \<and>
           (\<forall>m s0. \<exists>s1. try_block m (env ! i) s0 = Inr s1) \<and>
           mesh (cubes st' ! i) \<in> set (ringGroup st') \<and>
           (\<forall>ray. intersectObjects (ringGroup st') ray \<noteq> [] \<and>
                  hd (intersectObjects (ringGroup st') ray) = mesh (cubes st' ! i) \<longrightarrow>
                  onClick ray st' =
                    Inr (st'\<lparr>pokemonInfoDiv := ''<div>No data available.</div>''\<rparr>))"
proof -
  from createPokemonRing_completes [OF assms(1)] obtain st' where
    st': "createPokemonRing env st = Some st'" by blast
  note r = createPokemonRing_result [OF st']
  have b: "bound_data (env ! i) = None"
    using assms(3-5) by (auto simp: bound_data_cases)
  have c: "cubes st' ! i = \<lparr>mesh = next_mesh st + i, pokemonData = None\<rparr>"
    using createPokemonRing_slot [OF st' assms(2)] b by simp
  have len: "length (cubes st') = NUM_CUBES" by (rule createPokemonRing_length [OF st'])
  have ids: "pokemonIDs (cubes st') ! i = None"
    using c len assms(2) by (simp add: pokemonIDs_def)
  have no_load: "(mesh (cubes st' ! i), u) \<notin>
                  set (drop (length (texture_requests st)) (texture_requests st'))" for u
  proof
    assume "(mesh (cubes st' ! i), u) \<in> set (drop (length (texture_requests st)) (texture_requests st'))"
    then have "(next_mesh st + i, u) \<in> set (concat (map (\<lambda>(m, e). started_loads m e)
                  (zip [next_mesh st ..< next_mesh st + NUM_CUBES] env)))"
      by (simp add: r(6) c)
    from started_loads_in_zip [OF this] obtain j where
      "next_mesh st + i = next_mesh st + j"
      "(next_mesh st + i, u) \<in> set (started_loads (next_mesh st + i) (env ! j))" by blast
    then have "(next_mesh st + i, u) \<in> set (started_loads (next_mesh st + i) (env ! i))" by simp
    then show False by (simp add: started_loads_unbound [OF b])
  qed
  have t: "\<exists>s1. try_block m (env ! i) s0 = Inr s1" for m s0
    using assms(3-5) by (auto simp: try_block_cases)
  have in_group: "mesh (cubes st' ! i) \<in> set (ringGroup st')"
    using assms(2) by (simp add: r(3) c)
  have dist: "distinct (map mesh (cubes st'))"
    using createPokemonRing_meshes [OF st'] by simp
  have mem: "cubes st' ! i \<in> set (cubes st')"
    using len assms(2) by simp
  have f: "find (\<lambda>x. mesh x = mesh (cubes st' ! i)) (cubes st') = Some (cubes st' ! i)"
    by (rule find_mesh [OF dist mem])
  have click: "onClick ray st' = Inr (st'\<lparr>pokemonInfoDiv := ''<div>No data available.</div>''\<rparr>)"
    if "intersectObjects (ringGroup st') ray \<noteq> []"
      and "hd (intersectObjects (ringGroup st') ray) = mesh (cubes st' ! i)" for ray
  proof -
    have "pokemonData (cubes st' ! i) = None" by (simp add: c)
    then show ?thesis using that f by (simp add: onClick_def Let_def)
  qed
  have ids': "\<exists>ids. lastPokemonIDs st' = Some ids \<and> ids ! i = None"
    using r(5) ids by simp
  have pd: "pokemonData (cubes st' ! i) = None" by (simp add: c)
  show ?thesis using st' pd ids' no_load t in_group click by blast
qed

theorem spriteless_slot_unbound_witness:
  "NUM_CUBES \<le> length example_env \<and> (2::nat) < NUM_CUBES \<and>
   fetch_outcome (example_env ! 2) = Inr spriteless \<and>
   sprites spriteless = Some \<lparr>front_default = None\<rparr> \<and>
   pokemonData (cubes first_refresh ! 2) = None \<and>
   lastPokemonIDs first_refresh = Some [Some 6, None, None, None, Some 25, None, None, None, Some 6, None] \<and>
   texture_requests first_refresh =
     [(0, ''https://img/6.png''), (4, ''https://img/25.png''), (8, ''https://img/6.png'')] \<and>
   mesh (cubes first_refresh ! 2) = 2 \<and>
   onClick [2] first_refresh =
     Inr (first_refresh\<lparr>pokemonInfoDiv := ''<div>No data available.</div>''\<rparr>)"
proof -
  have h1: "NUM_CUBES \<le> length example_env" by (simp add: example_env_def NUM_CUBES_def)
  have h2: "(2::nat) < NUM_CUBES" by (simp add: NUM_CUBES_def)
  have h3: "fetch_outcome (example_env ! 2) = Inr spriteless"
    by (simp add: fetch_outcome_cases example_defs)
  have h4: "sprites spriteless = Some \<lparr>front_default = None\<rparr>" by (simp add: spriteless_def)
  have h5: "front_default \<lparr>front_default = None\<rparr> = None \<or>
            front_default \<lparr>front_default = None\<rparr> = Some []" by simp
  from spriteless_slot_unbound [OF h1 h2 h3 h4 h5, of "init_state []"]
  have pd: "pokemonData (cubes first_refresh ! 2) = None"
    and cl: "\<And>ray. intersectObjects (ringGroup first_refresh) ray \<noteq> [] \<Longrightarrow>
               hd (intersectObjects (ringGroup first_refresh) ray) = mesh (cubes first_refresh ! 2) \<Longrightarrow>
               onClick ray first_refresh =
                 Inr (first_refresh\<lparr>pokemonInfoDiv := ''<div>No data available.</div>''\<rparr>)"
    by (auto simp: first_refresh_some)
  have m2: "mesh (cubes first_refresh ! 2) = 2" by (simp add: first_refresh_cubes upt10)
  have "onClick [2] first_refresh =
     Inr (first_refresh\<lparr>pokemonInfoDiv := ''<div>No data available.</div>''\<rparr>)"
    by (rule cl) (simp_all add: intersectObjects_def first_refresh_ringGroup m2)
  moreover note pd m2
  moreover have "lastPokemonIDs first_refresh = Some (pokemonIDs (cubes first_refresh))"
    by (rule createPokemonRing_result(5) [OF first_refresh_some])
  then have "lastPokemonIDs first_refresh = Some [Some 6, None, None, None, Some 25, None, None, None, Some 6, None]"
    by (simp add: first_refresh_cubes upt10 pokemonIDs_def charizard_def pikachu_def)
  ultimately show ?thesis using h1 h2 h3 h4 first_refresh_requests by simp
qed

section \<open>Click resolution\<close>




text \<open>
  C10. A click whose ray meets no child of the group leaves the whole state as it
  is, the info element included. When no call of \<open>createPokemonRing\<close> is under way
  (\<open>ring_wf\<close>), the children of the group are the meshes of the current cubes, so
  this is every click whose ray meets no current cube.
\<close>

theorem click_miss_changes_nothing:
  "(intersectObjects (ringGroup st) ray = [] \<longrightarrow> onClick ray st = Inr st) \<and>
   (ring_wf st \<and> list_all (\<lambda>m. m \<notin> mesh ` set (cubes st)) ray \<longrightarrow> onClick ray st = Inr st)"
proof -
  have a: "onClick ray st = Inr st" if "intersectObjects (ringGroup st) ray = []"
    using that by (simp add: onClick_def Let_def)
  have b: "intersectObjects (ringGroup st) ray = []"
    if "ring_wf st" "list_all (\<lambda>m. m \<notin> mesh ` set (cubes st)) ray"
    using that by (auto simp: intersectObjects_def ring_wf_def list_all_iff filter_empty_conv)
  show ?thesis using a b by blast
qed

theorem click_miss_changes_nothing_witness:
  "intersectObjects (ringGroup first_refresh) [10, 11] = [] \<and> ring_wf first_refresh \<and>
   list_all (\<lambda>m. m \<notin> mesh ` set (cubes first_refresh)) [10, 11] \<and>
   onClick [10, 11] first_refresh = Inr first_refresh"
proof -
  have h1: "intersectObjects (ringGroup first_refresh) [10, 11] = []"
    by (simp add: intersectObjects_def first_refresh_ringGroup)
  have "mesh ` set (cubes first_refresh) = set [0 ..< 10]"
    using createPokemonRing_meshes [OF first_refresh_some]
    by (simp add: init_state_def NUM_CUBES_def flip: set_map)
  then have h2: "list_all (\<lambda>m. m \<notin> mesh ` set (cubes first_refresh)) [10, 11]" by simp
  from click_miss_changes_nothing [of first_refresh "[10, 11]"] h1
  have "onClick [10, 11] first_refresh = Inr first_refresh" by blast
  then show ?thesis using h1 h2 first_refresh_wf by simp
qed

section \<open>Replacing the meshes\<close>

text \<open>
  C7. Started in a state where the group holds the meshes of the current cubes, a
  call of \<open>createPokemonRing\<close> first removes every one of them from the group, then
  creates \<open>NUM_CUBES\<close> new meshes, the \<open>i\<close>-th placed at index \<open>i\<close> of the ring. When
  the call has completed, the group holds exactly these meshes, which are the meshes
  of the new cubes in their order, and no mesh created earlier.
\<close>

theorem refresh_replaces_handles:
  assumes "ring_wf st" and "createPokemonRing env st = Some st'"
  shows "ringGroup (removeExisting st) = [] \<and>
         ringGroup st' = [next_mesh st ..< next_mesh st + NUM_CUBES] \<and>
         ringGroup st' = map mesh (cubes st') \<and>
         length (ringGroup st') = NUM_CUBES \<and> distinct (ringGroup st') \<and>
         (\<forall>m < next_mesh st. m \<notin> set (ringGroup st')) \<and>
         (\<forall>m \<in> set (ringGroup st). m \<notin> set (ringGroup st')) \<and>
         (\<forall>i < NUM_CUBES. position_index (heap st' (ringGroup st' ! i)) = Some i) \<and>
         ring_wf st'"
proof -
  have g: "ringGroup st' = [next_mesh st ..< next_mesh st + NUM_CUBES]"
    by (rule createPokemonRing_ringGroup [OF assms])
  have old: "\<forall>m \<in> set (ringGroup st). m < next_mesh st"
    using assms(1) by (simp add: ring_wf_def list_all_iff)
  from assms(2) obtain s1 where l: "createPokemonRing_loop 0 env (removeExisting st) = Some s1"
    and st': "st' = s1\<lparr>lastPokemonIDs := Some (pokemonIDs (cubes s1)),
                        console := console s1 @ [PokemonIDs (pokemonIDs (cubes s1))]\<rparr>"
    by (auto simp: createPokemonRing_def split: option.splits)
  have hp: "heap st' = heap s1" by (simp add: st')
  have pos: "position_index (heap st' (ringGroup st' ! i)) = Some i" if "i < NUM_CUBES" for i
  proof -
    have "ringGroup st' ! i = next_mesh st + i" using that by (simp add: g)
    then show ?thesis using loop_position [OF l] that by (simp add: hp)
  qed
  show ?thesis
    using removeExisting_ring_wf [OF assms(1)] createPokemonRing_meshes [OF assms(2)]
      ring_wf_createPokemonRing [OF assms] old pos
    by (auto simp: g)
qed

theorem refresh_replaces_handles_witness:
  "ring_wf first_refresh \<and> createPokemonRing quiet_env first_refresh = Some second_refresh \<and>
   ringGroup first_refresh = [0, 1, 2, 3, 4, 5, 6, 7, 8, 9] \<and>
   ringGroup second_refresh = [10, 11, 12, 13, 14, 15, 16, 17, 18, 19] \<and>
   map mesh (cubes second_refresh) = [10, 11, 12, 13, 14, 15, 16, 17, 18, 19]"
proof -
  from refresh_replaces_handles [OF first_refresh_wf second_refresh_some]
  have "ringGroup second_refresh = [next_mesh first_refresh ..< next_mesh first_refresh + NUM_CUBES]"
    and "ringGroup second_refresh = map mesh (cubes second_refresh)" by blast+
  then have "ringGroup second_refresh = [10, 11, 12, 13, 14, 15, 16, 17, 18, 19]"
    and "map mesh (cubes second_refresh) = [10, 11, 12, 13, 14, 15, 16, 17, 18, 19]"
    by (simp_all add: first_refresh_next NUM_CUBES_def upt_rec)
  then show ?thesis using first_refresh_wf second_refresh_some by (simp add: first_refresh_ringGroup upt10)
qed

section \<open>Texture loads that outlive their cube\<close>

text \<open>
  The claim C8 says that a texture load is applied only if its cube is still
  current when the load completes. The callback of \<open>setCubeTexture\<close> has no such
  check. In the example run the load for mesh 4 is still pending when the second
  call of \<open>createPokemonRing\<close> has replaced all cubes; when it completes, the texture
  is written into mesh 4, which is neither in the group nor in \<open>cubes\<close>.
\<close>

theorem stale_texture_load_counterexample:
  "(4, ''https://img/25.png'') \<in> set (texture_requests first_refresh) \<and>
   createPokemonRing quiet_env first_refresh = Some second_refresh \<and>
   texture_loads second_refresh ! 0 = (4, ''https://img/25.png'') \<and>
   4 \<notin> set (ringGroup second_refresh) \<and> 4 \<notin> set (map mesh (cubes second_refresh)) \<and>
   material_map (heap second_refresh 4) = None \<and>
   material_map (heap (textureLoaded 0 second_refresh) 4) = Some ''https://img/25.png''"
proof -
  have g: "ringGroup second_refresh = [10 ..< 20]"
    using createPokemonRing_ringGroup [OF first_refresh_wf second_refresh_some] by (simp add: first_refresh_next NUM_CUBES_def)
  have m: "map mesh (cubes second_refresh) = [10 ..< 20]"
    using createPokemonRing_meshes [OF second_refresh_some] by (simp add: first_refresh_next NUM_CUBES_def)
  have t: "material_map (heap (textureLoaded 0 second_refresh) 4) = Some ''https://img/25.png''"
    by (simp add: textureLoaded_def texture_onLoad_def second_refresh_loads)
  show ?thesis
    using t second_refresh_some second_refresh_heap4 by (simp add: g m second_refresh_loads first_refresh_requests)
qed

text \<open>
  C8, amended. A texture load that was pending before a call of
  \<open>createPokemonRing\<close> and completes after it is applied without any check, to the
  mesh it was started for. That mesh is no longer in the group and belongs to no
  current cube, so the write changes the mesh of no current cube, and it changes
  neither \<open>cubes\<close> nor the group.
\<close>

theorem stale_texture_load_detached:
  assumes "ring_wf st0" and "(m, u) \<in> set (texture_loads st0)"
    and "createPokemonRing env st0 = Some st"
    and "k < length (texture_loads st)" and "texture_loads st ! k = (m, u)"
  shows "m \<notin> set (ringGroup st) \<and> m \<notin> mesh ` set (cubes st) \<and>
         heap (textureLoaded k st) =
           (heap st)(m := (heap st m)\<lparr>material_map := Some u, needsUpdate := True\<rparr>) \<and>
         cubes (textureLoaded k st) = cubes st \<and>
         ringGroup (textureLoaded k st) = ringGroup st \<and>
         (\<forall>c \<in> set (cubes st). heap (textureLoaded k st) (mesh c) = heap st (mesh c))"
proof -
  have lt: "m < next_mesh st0"
    using assms(1,2) by (auto simp: ring_wf_def list_all_iff)
  have g: "ringGroup st = [next_mesh st0 ..< next_mesh st0 + NUM_CUBES]"
    by (rule createPokemonRing_ringGroup [OF assms(1,3)])
  have ms: "mesh ` set (cubes st) = set [next_mesh st0 ..< next_mesh st0 + NUM_CUBES]"
    using createPokemonRing_meshes [OF assms(3)] by (simp flip: set_map)
  have h: "heap (textureLoaded k st) =
           (heap st)(m := (heap st m)\<lparr>material_map := Some u, needsUpdate := True\<rparr>)"
    using assms(4,5) by (simp add: textureLoaded_def texture_onLoad_def)
  have nm: "m \<notin> mesh ` set (cubes st)" using lt by (simp add: ms)
  then have "\<forall>c \<in> set (cubes st). heap (textureLoaded k st) (mesh c) = heap st (mesh c)"
    by (auto simp: h)
  then show ?thesis using lt h nm by (simp add: g)
qed

theorem stale_texture_load_detached_witness:
  "ring_wf first_refresh \<and> (4, ''https://img/25.png'') \<in> set (texture_loads first_refresh) \<and>
   createPokemonRing quiet_env first_refresh = Some second_refresh \<and>
   0 < length (texture_loads second_refresh) \<and> texture_loads second_refresh ! 0 = (4, ''https://img/25.png'') \<and>
   4 \<notin> set (ringGroup second_refresh) \<and>
   heap (textureLoaded 0 second_refresh) =
     (heap second_refresh)(4 := (heap second_refresh 4)\<lparr>material_map := Some ''https://img/25.png'', needsUpdate := True\<rparr>)"
proof -
  have h2: "(4, ''https://img/25.png'') \<in> set (texture_loads first_refresh)" by (simp add: first_refresh_loads)
  have h4: "0 < length (texture_loads second_refresh)" by (simp add: second_refresh_loads)
  have h5: "texture_loads second_refresh ! 0 = (4, ''https://img/25.png'')" by (simp add: second_refresh_loads)
  from stale_texture_load_detached [OF first_refresh_wf h2 second_refresh_some h4 h5]
  show ?thesis using first_refresh_wf h2 second_refresh_some h4 h5 by simp
qed

end
